theory Spec2Isabelle
  imports Complex_Main "HOL-Library.Word" "HOL-Library.AList"
begin

unbundle bit_operations_syntax

section \<open>Packed lower-triangular storage\<close>

text \<open>
  \<open>index_t\<close> is a 64-bit unsigned integer, \<open>qs_data_t\<close> a complex number (exact here, a pair
  of floating-point numbers in the source) and \<open>qs_data_p_t\<close> a pointer to the packed buffer;
  the kernels below work on the contents of that buffer. A density matrix of dimension
  \<open>d\<close> occupies \<open>d * (d + 1) div 2\<close> entries, row-major, lower triangle only.
\<close>

type_synonym index_t = "64 word"
type_synonym qbits_t = "nat list"
type_synonym qs_data_t = complex
type_synonym qs_data_p_t = "complex list"

text \<open>
  Modelled from the spec: \<open>IdxMap\<close> is declared in the policy header, which is not among the
  sources. The spec gives \<open>IdxMap(r,c) = r*(r+1)/2 + c\<close> for \<open>r \<ge> c\<close>; the arithmetic is
  \<open>index_t\<close> arithmetic.
\<close>

definition IdxMap :: "index_t \<Rightarrow> index_t \<Rightarrow> nat" where
  "IdxMap x y = unat (x * (x + 1) div 2 + y)"

text \<open>
  \<open>qs[i] *= c\<close> and \<open>qs[i] = c\<close>. The source indexes a raw pointer; every index the kernels
  form lies inside the buffer when the buffer has \<open>d * (d + 1) div 2\<close> entries, and outside
  of it the model leaves the buffer as it is.
\<close>

definition mul_at :: "nat \<Rightarrow> qs_data_t \<Rightarrow> qs_data_p_t \<Rightarrow> qs_data_p_t" where
  "mul_at i c qs = (if i < length qs then qs[i := qs ! i * c] else qs)"

definition set_at :: "nat \<Rightarrow> qs_data_t \<Rightarrow> qs_data_p_t \<Rightarrow> qs_data_p_t" where
  "set_at i c qs = (if i < length qs then qs[i := c] else qs)"

text \<open>
  Modelled from the spec: \<open>SelfMultiply\<close> is defined in the core policy file, which is not
  among the sources. It multiplies the matrix entry \<open>(row, col)\<close> by \<open>val\<close>; by the spec an
  entry above the diagonal is held as the conjugate of the stored entry \<open>(col, row)\<close>, so
  there the stored entry is multiplied by the conjugate of \<open>val\<close>.
\<close>

definition SelfMultiply :: "qs_data_p_t \<Rightarrow> index_t \<Rightarrow> index_t \<Rightarrow> qs_data_t \<Rightarrow> qs_data_p_t" where
  "SelfMultiply qs row col val =
     (if col \<le> row then mul_at (IdxMap row col) val qs
      else mul_at (IdxMap col row) (cnj val) qs)"

text \<open>\<open>std::norm\<close> of a complex number is its squared magnitude.\<close>

definition std_norm :: "qs_data_t \<Rightarrow> qs_data_t" where
  "std_norm val = of_real ((Re val)\<^sup>2 + (Im val)\<^sup>2)"

subsection \<open>Qubit masks\<close>

record SingleQubitGateMask =
  obj_mask :: index_t
  obj_low_mask :: index_t
  obj_high_mask :: index_t
  ctrl_mask :: index_t

definition GetControlMask :: "qbits_t \<Rightarrow> index_t" where
  "GetControlMask ctrls = fold (\<lambda>c m. m OR push_bit c 1) ctrls 0"

text \<open>
  Modelled from the spec: the constructor of \<open>SingleQubitGateMask\<close> is in
  \<open>simulator/utils.hpp\<close>, which is not among the sources. By the spec, for the object qubit
  \<open>q\<close>: \<open>obj_mask = 1 << q\<close>, \<open>obj_low_mask = obj_mask - 1\<close>,
  \<open>obj_high_mask = ~obj_low_mask\<close>, and \<open>ctrl_mask\<close> is the bitwise OR of \<open>1 << c\<close> over the
  control qubits. The object qubit is \<open>objs[0]\<close>; reading it from an empty vector is
  undefined in the source and \<open>None\<close> here.
\<close>

definition mk_SingleQubitGateMask :: "qbits_t \<Rightarrow> qbits_t \<Rightarrow> SingleQubitGateMask option" where
  "mk_SingleQubitGateMask objs ctrls =
     (case objs of
        [] \<Rightarrow> None
      | q # _ \<Rightarrow>
          Some \<lparr>obj_mask = push_bit q 1,
                obj_low_mask = push_bit q 1 - 1,
                obj_high_mask = NOT (push_bit q 1 - 1),
                ctrl_mask = GetControlMask ctrls\<rparr>)"

text \<open>The values \<open>0, 1, ..., n - 1\<close> of a loop counter of type \<open>index_t\<close>, in loop order.\<close>

definition index_range :: "nat \<Rightarrow> index_t list" where
  "index_range n = map of_nat [0..<n]"

text \<open>
  \<open>((k & mask.obj_high_mask) << 1) + (k & mask.obj_low_mask)\<close>: the base index \<open>k\<close> with a
  zero inserted at the object qubit.
\<close>

definition base_index :: "SingleQubitGateMask \<Rightarrow> index_t \<Rightarrow> index_t" where
  "base_index msk k = push_bit 1 (k AND obj_high_mask msk) + (k AND obj_low_mask msk)"

section \<open>Z-like kernels (\<open>cpu_densitymatrix_policy_zlike.cpp\<close>)\<close>

text \<open>
  The body of the column loop of \<open>ApplyZLike\<close> without controls (lines 47--51), for row
  base \<open>k\<close> and column base \<open>l\<close>.
\<close>

definition ZLike_block ::
  "SingleQubitGateMask \<Rightarrow> qs_data_t \<Rightarrow> index_t \<Rightarrow> index_t \<Rightarrow> qs_data_p_t \<Rightarrow> qs_data_p_t" where
  "ZLike_block msk val k l qs =
     (let r0 = base_index msk k;
          r1 = r0 OR obj_mask msk;
          c0 = base_index msk l;
          c1 = c0 OR obj_mask msk;
          qs = mul_at (IdxMap r1 c1) (std_norm val) qs;
          qs = mul_at (IdxMap r1 c0) val qs
      in SelfMultiply qs r0 c1 (cnj val))"

text \<open>
  The body of the column loop with controls (lines 60--83). The \<open>continue\<close> of line 63
  leaves the buffer as it is; the statements under the comment \<open>diagonal case\<close> (lines
  80--83) stand inside the column loop and run in every iteration that is not skipped.
\<close>

definition ZLike_ctrl_block ::
  "SingleQubitGateMask \<Rightarrow> qs_data_t \<Rightarrow> index_t \<Rightarrow> index_t \<Rightarrow> qs_data_p_t \<Rightarrow> qs_data_p_t" where
  "ZLike_ctrl_block msk val k l qs =
     (let r0 = base_index msk k;
          r1 = r0 OR obj_mask msk;
          c0 = base_index msk l
      in if r0 AND ctrl_mask msk \<noteq> ctrl_mask msk \<and> c0 AND ctrl_mask msk \<noteq> ctrl_mask msk
         then qs
         else
           let c1 = c0 OR obj_mask msk;
               qs =
                 (if r0 AND ctrl_mask msk = ctrl_mask msk then
                    if c0 AND ctrl_mask msk = ctrl_mask msk then
                      let qs = mul_at (IdxMap r1 c1) (std_norm val) qs;
                          qs = mul_at (IdxMap r1 c0) val qs
                      in SelfMultiply qs r0 c1 (cnj val)
                    else
                      let qs = mul_at (IdxMap r1 c1) val qs
                      in mul_at (IdxMap r1 c0) val qs
                  else
                    let qs = mul_at (IdxMap r1 c1) (cnj val) qs
                    in SelfMultiply qs r0 c1 (cnj val))
           in if r0 AND ctrl_mask msk = ctrl_mask msk then
                let qs = mul_at (IdxMap r1 r0) val qs
                in mul_at (IdxMap r1 r1) (std_norm val) qs
              else qs)"

text \<open>
  \<open>ApplyZLike\<close>: the row loop runs over \<open>k < dim / 2\<close>; the column loop over \<open>l \<le> k\<close>
  without controls and over \<open>l < k\<close> with controls. \<open>THRESHOLD_OMP_FOR\<close> runs the row
  loop in parallel above a dimension threshold; the iterations write disjoint entries and
  are run in order here.
\<close>

definition ApplyZLike ::
  "qs_data_p_t \<Rightarrow> qbits_t \<Rightarrow> qbits_t \<Rightarrow> qs_data_t \<Rightarrow> index_t \<Rightarrow> qs_data_p_t option" where
  "ApplyZLike qs objs ctrls val dim' =
     (case mk_SingleQubitGateMask objs ctrls of
        None \<Rightarrow> None
      | Some msk \<Rightarrow>
          Some
            (if ctrl_mask msk = 0 then
               fold (\<lambda>k. fold (ZLike_block msk val k) (index_range (Suc (unat k))))
                 (index_range (unat (dim' div 2))) qs
             else
               fold (\<lambda>k. fold (ZLike_ctrl_block msk val k) (index_range (unat k)))
                 (index_range (unat (dim' div 2))) qs))"

definition ApplyZ :: "qs_data_p_t \<Rightarrow> qbits_t \<Rightarrow> qbits_t \<Rightarrow> index_t \<Rightarrow> qs_data_p_t option" where
  "ApplyZ qs objs ctrls dim' = ApplyZLike qs objs ctrls (- 1) dim'"

definition ApplySGate :: "qs_data_p_t \<Rightarrow> qbits_t \<Rightarrow> qbits_t \<Rightarrow> index_t \<Rightarrow> qs_data_p_t option" where
  "ApplySGate qs objs ctrls dim' = ApplyZLike qs objs ctrls (Complex 0 1) dim'"

definition ApplySdag :: "qs_data_p_t \<Rightarrow> qbits_t \<Rightarrow> qbits_t \<Rightarrow> index_t \<Rightarrow> qs_data_p_t option" where
  "ApplySdag qs objs ctrls dim' = ApplyZLike qs objs ctrls (Complex 0 (- 1)) dim'"

definition ApplyT :: "qs_data_p_t \<Rightarrow> qbits_t \<Rightarrow> qbits_t \<Rightarrow> index_t \<Rightarrow> qs_data_p_t option" where
  "ApplyT qs objs ctrls dim' = ApplyZLike qs objs ctrls (Complex 1 1 / of_real (sqrt 2)) dim'"

definition ApplyTdag :: "qs_data_p_t \<Rightarrow> qbits_t \<Rightarrow> qbits_t \<Rightarrow> index_t \<Rightarrow> qs_data_p_t option" where
  "ApplyTdag qs objs ctrls dim' = ApplyZLike qs objs ctrls (Complex 1 (- 1) / of_real (sqrt 2)) dim'"

text \<open>
  The derivative branch of \<open>ApplyPS\<close> (lines 114--163). Its two loop bodies write zeros
  and multiples of \<open>e = -sin(val) + i cos(val)\<close>; the index of every write is
  \<open>IdxMap\<close> of the pair as the source passes it.
\<close>

definition PS_diff_block ::
  "SingleQubitGateMask \<Rightarrow> index_t \<Rightarrow> index_t \<Rightarrow> qs_data_p_t \<Rightarrow> qs_data_p_t" where
  "PS_diff_block msk k l qs =
     (let r0 = base_index msk k;
          r1 = r0 OR obj_mask msk;
          c0 = base_index msk l;
          c1 = c0 OR obj_mask msk;
          qs = set_at (IdxMap r0 c0) 0 qs;
          qs = set_at (IdxMap r0 c1) 0 qs
      in set_at (IdxMap r1 c0) 0 qs)"

definition PS_diff_ctrl_block ::
  "SingleQubitGateMask \<Rightarrow> qs_data_t \<Rightarrow> index_t \<Rightarrow> index_t \<Rightarrow> qs_data_p_t \<Rightarrow> qs_data_p_t" where
  "PS_diff_ctrl_block msk e k l qs =
     (let r0 = base_index msk k;
          r1 = r0 OR obj_mask msk;
          c0 = base_index msk l
      in if r0 AND ctrl_mask msk \<noteq> ctrl_mask msk \<and> c0 AND ctrl_mask msk \<noteq> ctrl_mask msk
         then qs
         else
           let c1 = c0 OR obj_mask msk
           in if r0 AND ctrl_mask msk = ctrl_mask msk then
                if c0 AND ctrl_mask msk = ctrl_mask msk then
                  let qs = set_at (IdxMap r0 c0) 0 qs;
                      qs = set_at (IdxMap r0 c1) 0 qs
                  in set_at (IdxMap r1 c0) 0 qs
                else
                  let qs = set_at (IdxMap r0 c0) 0 qs;
                      qs = set_at (IdxMap r0 c1) 0 qs;
                      qs = mul_at (IdxMap r1 c0) e qs
                  in mul_at (IdxMap r1 c1) e qs
              else
                let qs = set_at (IdxMap r0 c0) 0 qs;
                    qs = mul_at (IdxMap r0 c1) (cnj e) qs;
                    qs = set_at (IdxMap r1 c0) 0 qs
                in mul_at (IdxMap r1 c1) (cnj e) qs)"

text \<open>
  \<open>ApplyPS\<close>. \<open>SetToZeroExcept\<close> is a kernel of the core policy file, which is not among
  the sources; it is the parameter \<open>set_to_zero_except\<close>.
\<close>

definition ApplyPS ::
  "(qs_data_p_t \<Rightarrow> index_t \<Rightarrow> index_t \<Rightarrow> qs_data_p_t) \<Rightarrow>
   qs_data_p_t \<Rightarrow> qbits_t \<Rightarrow> qbits_t \<Rightarrow> real \<Rightarrow> index_t \<Rightarrow> bool \<Rightarrow> qs_data_p_t option" where
  "ApplyPS set_to_zero_except qs objs ctrls val dim' diff =
     (if \<not> diff then ApplyZLike qs objs ctrls (Complex (cos val) (sin val)) dim'
      else
        case mk_SingleQubitGateMask objs ctrls of
          None \<Rightarrow> None
        | Some msk \<Rightarrow>
            let e = of_real (- sin val) + \<i> * of_real (cos val)
            in Some
              (if ctrl_mask msk = 0 then
                 fold (\<lambda>k. fold (PS_diff_block msk k) (index_range (Suc (unat k))))
                   (index_range (unat (dim' div 2))) qs
               else
                 set_to_zero_except
                   (fold (\<lambda>k. fold (PS_diff_ctrl_block msk e k) (index_range (Suc (unat k))))
                      (index_range (unat (dim' div 2))) qs)
                   (ctrl_mask msk) dim'))"

subsection \<open>The transformation the controlled kernel is specified to compute\<close>

text \<open>
  Written from the spec, for comparison with \<open>ApplyZLike\<close>: the controlled diagonal unitary
  \<open>G\<close> has the entry \<open>val\<close> at every basis index whose control bits are all set and whose
  object bit is set, and 1 elsewhere; the transformation of \<open>\<rho>\<close> into \<open>G \<rho> G\<close>-adjoint multiplies the stored entry \<open>(r, c)\<close>,
  \<open>c \<le> r\<close>, by \<open>G r * cnj (G c)\<close>, once.
\<close>

definition ZLike_diag :: "SingleQubitGateMask \<Rightarrow> qs_data_t \<Rightarrow> index_t \<Rightarrow> qs_data_t" where
  "ZLike_diag msk val x =
     (if x AND ctrl_mask msk = ctrl_mask msk \<and> x AND obj_mask msk \<noteq> 0 then val else 1)"

definition ZLike_spec ::
  "qs_data_p_t \<Rightarrow> qbits_t \<Rightarrow> qbits_t \<Rightarrow> qs_data_t \<Rightarrow> index_t \<Rightarrow> qs_data_p_t option" where
  "ZLike_spec qs objs ctrls val dim' =
     (case mk_SingleQubitGateMask objs ctrls of
        None \<Rightarrow> None
      | Some msk \<Rightarrow>
          Some
            (fold (\<lambda>r. fold (\<lambda>c. mul_at (IdxMap r c) (ZLike_diag msk val r * cnj (ZLike_diag msk val c)))
                     (index_range (Suc (unat r))))
               (index_range (unat dim')) qs))"

section \<open>State container (\<open>densitymatrix_state.tpp\<close>)\<close>

subsection \<open>Failures\<close>

text \<open>
  The exceptions the container and its collaborators raise, and the places where the
  source's behaviour is undefined (an element read or written outside a vector, a
  division by zero), which the model reports as a failure of its own.
\<close>

datatype sim_error =
  InvalidArgument string
  | RuntimeError string
  | OutOfRange
  | AssertionFailed
  | AllocationFailure
  | UndefinedBehaviour

subsection \<open>Collaborators\<close>

text \<open>
  Modelled from the spec: \<open>ParameterResolver\<close> is declared in
  \<open>core/parameter_resolver.hpp\<close>, which is not among the sources. The container reads
  \<open>data_\<close> (name to coefficient, a \<open>std::map\<close>: an association list with distinct keys),
  \<open>no_grad_parameters_\<close> (a set of names) and \<open>const_value\<close>.
\<close>

record ParameterResolver =
  data :: "(string \<times> real) list"
  no_grad_parameters :: "string list"
  const_value :: real

text \<open>
  Modelled from the spec: \<open>GetRequiresGradParameters\<close> returns the set of the names of
  \<open>data\<close> that require a gradient, that is those not among \<open>no_grad_parameters\<close>.
\<close>

definition GetRequiresGradParameters :: "ParameterResolver \<Rightarrow> string list" where
  "GetRequiresGradParameters prs =
     filter (\<lambda>name. name \<notin> set (no_grad_parameters prs)) (map fst (data prs))"

text \<open>
  Modelled from the spec: \<open>BasicGate\<close> is declared in \<open>ops/basic_gate.hpp\<close>, which is not
  among the sources. These are the members the container reads; here and below the
  trailing underscore of a member name is dropped.
\<close>

record BasicGate =
  name :: string
  obj_qubits :: qbits_t
  ctrl_qubits :: qbits_t
  daggered :: bool
  parameterized :: bool
  is_measure :: bool
  is_channel :: bool
  applied_value :: real
  params :: ParameterResolver
  damping_coeff :: real
  probs :: "real list"
  kraus_operator_set :: "complex list list list"

text \<open>
  Modelled from the spec: the gate and channel names are string constants of
  \<open>ops/gates.hpp\<close>, which is not among the sources; the values follow the identifiers the
  spec lists. The container only compares them with \<open>name\<close>.
\<close>

definition gI :: string where "gI = ''I''"
definition gX :: string where "gX = ''X''"
definition gCNOT :: string where "gCNOT = ''CNOT''"
definition gY :: string where "gY = ''Y''"
definition gZ :: string where "gZ = ''Z''"
definition gH :: string where "gH = ''H''"
definition gS :: string where "gS = ''S''"
definition gT :: string where "gT = ''T''"
definition gSWAP :: string where "gSWAP = ''SWAP''"
definition gISWAP :: string where "gISWAP = ''ISWAP''"
definition gRX :: string where "gRX = ''RX''"
definition gRY :: string where "gRY = ''RY''"
definition gRZ :: string where "gRZ = ''RZ''"
definition gXX :: string where "gXX = ''Rxx''"
definition gYY :: string where "gYY = ''Ryy''"
definition gZZ :: string where "gZZ = ''Rzz''"
definition gPS :: string where "gPS = ''PS''"
definition cAD :: string where "cAD = ''cAD''"
definition cPD :: string where "cPD = ''cPD''"
definition cPL :: string where "cPL = ''cPL''"
definition hcAD :: string where "hcAD = ''hcAD''"

text \<open>
  The kernels of the policy that are not among the sources, the random-number library and
  the methods of \<open>ParameterResolver\<close> the container calls are parameters of the model: one
  field each, named as in the source, grouped into the records \<open>rnd\<close> (random numbers),
  \<open>prm\<close> (resolver methods), \<open>gk\<close> (gate kernels), \<open>ck\<close> (channel kernels) and \<open>hk\<close>
  (Hamiltonian kernels) of a policy. A kernel takes the contents of the buffers its
  pointer arguments address and returns the new contents of the buffer it writes.
  \<open>'h\<close> is the type of a Hamiltonian's terms (\<open>ham_\<close>), \<open>'e\<close> the state of the random
  engine. \<open>uniform_real a b\<close> is one draw of \<open>std::uniform_real_distribution<double>(a, b)\<close>
  from an engine; \<open>InitState\<close>, \<open>Copy\<close> and \<open>HamiltonianMatrix\<close> return the contents of the
  buffer they allocate.
\<close>

record 'e std_random =
  RndEngine :: "nat \<Rightarrow> 'e"
  uniform_real :: "real \<Rightarrow> real \<Rightarrow> 'e \<Rightarrow> real \<times> 'e"

record resolver_methods =
  Combination :: "ParameterResolver \<Rightarrow> ParameterResolver \<Rightarrow> sim_error + ParameterResolver"
  SetItems :: "string list \<Rightarrow> real list \<Rightarrow> ParameterResolver \<Rightarrow> sim_error + ParameterResolver"

record gate_kernels =
  InitState :: "index_t \<Rightarrow> qs_data_p_t"
  Copy :: "qs_data_p_t \<Rightarrow> index_t \<Rightarrow> qs_data_p_t"
  SetToZeroExcept :: "qs_data_p_t \<Rightarrow> index_t \<Rightarrow> index_t \<Rightarrow> qs_data_p_t"
  ApplyX :: "qs_data_p_t \<Rightarrow> qbits_t \<Rightarrow> qbits_t \<Rightarrow> index_t \<Rightarrow> qs_data_p_t"
  ApplyY :: "qs_data_p_t \<Rightarrow> qbits_t \<Rightarrow> qbits_t \<Rightarrow> index_t \<Rightarrow> qs_data_p_t"
  ApplyH :: "qs_data_p_t \<Rightarrow> qbits_t \<Rightarrow> qbits_t \<Rightarrow> index_t \<Rightarrow> qs_data_p_t"
  ApplySWAP :: "qs_data_p_t \<Rightarrow> qbits_t \<Rightarrow> qbits_t \<Rightarrow> index_t \<Rightarrow> qs_data_p_t"
  ApplyISWAP :: "qs_data_p_t \<Rightarrow> qbits_t \<Rightarrow> qbits_t \<Rightarrow> index_t \<Rightarrow> qs_data_p_t"
  ApplyRX :: "qs_data_p_t \<Rightarrow> qbits_t \<Rightarrow> qbits_t \<Rightarrow> real \<Rightarrow> index_t \<Rightarrow> bool \<Rightarrow> qs_data_p_t"
  ApplyRY :: "qs_data_p_t \<Rightarrow> qbits_t \<Rightarrow> qbits_t \<Rightarrow> real \<Rightarrow> index_t \<Rightarrow> bool \<Rightarrow> qs_data_p_t"
  ApplyRZ :: "qs_data_p_t \<Rightarrow> qbits_t \<Rightarrow> qbits_t \<Rightarrow> real \<Rightarrow> index_t \<Rightarrow> bool \<Rightarrow> qs_data_p_t"
  ApplyXX :: "qs_data_p_t \<Rightarrow> qbits_t \<Rightarrow> qbits_t \<Rightarrow> real \<Rightarrow> index_t \<Rightarrow> bool \<Rightarrow> qs_data_p_t"
  ApplyZZ :: "qs_data_p_t \<Rightarrow> qbits_t \<Rightarrow> qbits_t \<Rightarrow> real \<Rightarrow> index_t \<Rightarrow> bool \<Rightarrow> qs_data_p_t"
  ApplyYY :: "qs_data_p_t \<Rightarrow> qbits_t \<Rightarrow> qbits_t \<Rightarrow> real \<Rightarrow> index_t \<Rightarrow> bool \<Rightarrow> qs_data_p_t"

record channel_kernels =
  ApplyAmplitudeDamping :: "qs_data_p_t \<Rightarrow> qbits_t \<Rightarrow> real \<Rightarrow> index_t \<Rightarrow> qs_data_p_t"
  ApplyPhaseDamping :: "qs_data_p_t \<Rightarrow> qbits_t \<Rightarrow> real \<Rightarrow> index_t \<Rightarrow> qs_data_p_t"
  ApplyPauli :: "qs_data_p_t \<Rightarrow> qbits_t \<Rightarrow> real list \<Rightarrow> index_t \<Rightarrow> qs_data_p_t"
  ApplyKraus :: "qs_data_p_t \<Rightarrow> qbits_t \<Rightarrow> complex list list list \<Rightarrow> index_t \<Rightarrow> qs_data_p_t"
  ApplyHermitianAmplitudeDamping :: "qs_data_p_t \<Rightarrow> qbits_t \<Rightarrow> real \<Rightarrow> index_t \<Rightarrow> qs_data_p_t"

record 'h hamiltonian_kernels =
  ApplyTerms :: "qs_data_p_t \<Rightarrow> 'h \<Rightarrow> index_t \<Rightarrow> qs_data_p_t"
  GetExpectation :: "qs_data_p_t \<Rightarrow> 'h \<Rightarrow> index_t \<Rightarrow> complex"
  HamiltonianMatrix :: "'h \<Rightarrow> index_t \<Rightarrow> qs_data_p_t"
  ExpectDiffRX :: "qs_data_p_t \<Rightarrow> qs_data_p_t \<Rightarrow> qbits_t \<Rightarrow> qbits_t \<Rightarrow> index_t \<Rightarrow> complex"
  ExpectDiffRY :: "qs_data_p_t \<Rightarrow> qs_data_p_t \<Rightarrow> qbits_t \<Rightarrow> qbits_t \<Rightarrow> index_t \<Rightarrow> complex"
  ExpectDiffRZ :: "qs_data_p_t \<Rightarrow> qs_data_p_t \<Rightarrow> qbits_t \<Rightarrow> qbits_t \<Rightarrow> index_t \<Rightarrow> complex"
  ExpectDiffXX :: "qs_data_p_t \<Rightarrow> qs_data_p_t \<Rightarrow> qbits_t \<Rightarrow> qbits_t \<Rightarrow> index_t \<Rightarrow> complex"
  ExpectDiffZZ :: "qs_data_p_t \<Rightarrow> qs_data_p_t \<Rightarrow> qbits_t \<Rightarrow> qbits_t \<Rightarrow> index_t \<Rightarrow> complex"
  ExpectDiffYY :: "qs_data_p_t \<Rightarrow> qs_data_p_t \<Rightarrow> qbits_t \<Rightarrow> qbits_t \<Rightarrow> index_t \<Rightarrow> complex"
  ExpectDiffPS :: "qs_data_p_t \<Rightarrow> qs_data_p_t \<Rightarrow> qbits_t \<Rightarrow> qbits_t \<Rightarrow> index_t \<Rightarrow> complex"

record ('h, 'e) qs_policy =
  rnd :: "'e std_random"
  prm :: resolver_methods
  gk :: gate_kernels
  ck :: channel_kernels
  hk :: "'h hamiltonian_kernels"

subsection \<open>Kernels the measurement and the copies rest on\<close>

text \<open>
  Modelled from the spec: \<open>DiagonalConditionalCollect\<close>, \<open>ConditionalMul\<close> and \<open>CopyQS\<close>
  are kernels of the core policy file, which is not among the sources.

  \<open>DiagonalConditionalCollect\<close> is the spec's diagonal conditional collect: the sum of the
  diagonal entries \<open>\<rho>[i,i]\<close>, \<open>i < dim\<close>, whose index satisfies \<open>(i & mask) == condi\<close>. The
  result is compared with a real random number; the diagonal of a Hermitian matrix is real
  and the real parts are summed.
\<close>

definition DiagonalConditionalCollect ::
  "qs_data_p_t \<Rightarrow> index_t \<Rightarrow> index_t \<Rightarrow> bool \<Rightarrow> index_t \<Rightarrow> real" where
  "DiagonalConditionalCollect qs msk condi abs' dim' =
     sum_list (map (\<lambda>i. Re (qs ! IdxMap i i))
       (filter (\<lambda>i. i AND msk = condi) (index_range (unat dim'))))"

text \<open>
  \<open>ConditionalMul\<close> is the spec's conditional-multiply kernel over the packed triangle:
  the stored entry \<open>(r, c)\<close> of \<open>des\<close> becomes the entry of \<open>src\<close> times \<open>succ_coeff\<close> when
  both the row and the column index satisfy \<open>(i & mask) == condi\<close> (the surviving block), and
  times \<open>fail_coeff\<close> otherwise.
\<close>

definition ConditionalMul ::
  "qs_data_p_t \<Rightarrow> qs_data_p_t \<Rightarrow> index_t \<Rightarrow> index_t \<Rightarrow> qs_data_t \<Rightarrow> qs_data_t \<Rightarrow> index_t
   \<Rightarrow> qs_data_p_t" where
  "ConditionalMul src des msk condi succ_coeff fail_coeff dim' =
     fold (\<lambda>r. fold (\<lambda>c. set_at (IdxMap r c)
                      (src ! IdxMap r c
                         * (if r AND msk = condi \<and> c AND msk = condi then succ_coeff else fail_coeff)))
                (index_range (Suc (unat r))))
       (index_range (unat dim')) des"

text \<open>
  \<open>CopyQS(qs, qs_out, dim)\<close> overwrites the packed entries of \<open>qs\<close>, \<open>dim * (dim + 1) / 2\<close> of
  them, with those of \<open>qs_out\<close>.
\<close>

definition packed_size :: "index_t \<Rightarrow> nat" where
  "packed_size dim' = unat dim' * (unat dim' + 1) div 2"

definition CopyQS :: "qs_data_p_t \<Rightarrow> qs_data_p_t \<Rightarrow> index_t \<Rightarrow> qs_data_p_t" where
  "CopyQS qs qs_out dim' =
     map (\<lambda>i. if i < packed_size dim' then qs_out ! i else qs ! i) [0..<length qs]"

subsection \<open>The state and the memory it points into\<close>

text \<open>
  A state holds a pointer \<open>qs\<close> to its buffer. The memory is the list of the buffers
  allocated so far; a pointer is an index into it, and an allocation appends a buffer.
  Buffers are never reused, so the release of a buffer by a destructor is not modelled.
  \<open>rng_\<close> is \<open>std::bind\<close> of a uniform distribution on \<open>[0, 1)\<close> and a reference to
  \<open>rnd_eng_\<close>: a call draws from the engine of the state.
\<close>

type_synonym heap = "qs_data_p_t list"

record 'e DensityMatrixState =
  qs :: nat
  n_qubits :: nat
  dim' :: index_t
  seed :: nat
  rnd_eng :: 'e


text \<open>The constructor that adopts a buffer, lines 55--59.\<close>

definition adopt_state ::
  "('h, 'e) qs_policy \<Rightarrow> nat \<Rightarrow> nat \<Rightarrow> nat \<Rightarrow> 'e DensityMatrixState" where
  "adopt_state pol p n sd =
     \<lparr>qs = p, n_qubits = n, dim' = push_bit n 1, seed = sd, rnd_eng = RndEngine (rnd pol) sd\<rparr>"

text \<open>The copy constructor, lines 62--70.\<close>

definition copy_state ::
  "('h, 'e) qs_policy \<Rightarrow> 'e DensityMatrixState \<Rightarrow> heap \<Rightarrow> 'e DensityMatrixState \<times> heap" where
  "copy_state pol sim h =
     (\<lparr>qs = length h, n_qubits = n_qubits sim, dim' = dim' sim, seed = seed sim,
       rnd_eng = RndEngine (rnd pol) (seed sim)\<rparr>,
      h @ [Copy (gk pol) (h ! qs sim) (dim' sim)])"

text \<open>The member \<open>CopyQS(qs_out)\<close>, lines 131--134: \<open>qs_policy_t::CopyQS(qs, qs_out, dim)\<close>.\<close>

definition member_CopyQS :: "'e DensityMatrixState \<Rightarrow> nat \<Rightarrow> heap \<Rightarrow> heap" where
  "member_CopyQS st qs_out h = h[qs st := CopyQS (h ! qs st) (h ! qs_out) (dim' st)]"

subsection \<open>Measurement\<close>

text \<open>
  \<open>ApplyMeasure\<close>, lines 258--267. The \<open>assert\<close> fails on a gate that is not a measurement;
  \<open>obj_qubits_[0]\<close> of an empty vector is an undefined read. The result is the outcome, the
  state with its engine advanced by one draw, and the memory with the buffer of the state
  overwritten.
\<close>

definition ApplyMeasure ::
  "('h, 'e) qs_policy \<Rightarrow> BasicGate \<Rightarrow> 'e DensityMatrixState \<times> heap
   \<Rightarrow> sim_error + (nat \<times> 'e DensityMatrixState \<times> heap)" where
  "ApplyMeasure pol g sh =
     (case sh of (st, h) \<Rightarrow>
        if \<not> is_measure g then Inl AssertionFailed
        else
          case obj_qubits g of
            [] \<Rightarrow> Inl UndefinedBehaviour
          | q # _ \<Rightarrow>
              let one_mask = (push_bit q 1 :: index_t);
                  one_amp = DiagonalConditionalCollect (h ! qs st) one_mask one_mask True (dim' st);
                  (u, eng) = uniform_real (rnd pol) 0 1 (rnd_eng st);
                  collapse_mask = (push_bit q (if u < one_amp then 1 else 0) :: index_t);
                  norm_fact = (if collapse_mask = 0 then 1 / (1 - one_amp) else 1 / one_amp);
                  h' = h[qs st := ConditionalMul (h ! qs st) (h ! qs st) one_mask collapse_mask
                                   (of_real norm_fact) 0 (dim' st)]
              in Inr (if collapse_mask \<noteq> 0 then 1 else 0, st\<lparr>rnd_eng := eng\<rparr>, h'))"

subsection \<open>Gate dispatch\<close>

text \<open>\<open>ApplyChannel\<close>, lines 236--251.\<close>

definition ApplyChannel ::
  "('h, 'e) qs_policy \<Rightarrow> BasicGate \<Rightarrow> 'e DensityMatrixState \<times> heap \<Rightarrow> sim_error + heap" where
  "ApplyChannel pol g sh =
     (case sh of (st, h) \<Rightarrow>
        if name g = cAD then
          Inr (h[qs st := ApplyAmplitudeDamping (ck pol) (h ! qs st) (obj_qubits g) (damping_coeff g) (dim' st)])
        else if name g = cPD then
          Inr (h[qs st := ApplyPhaseDamping (ck pol) (h ! qs st) (obj_qubits g) (damping_coeff g) (dim' st)])
        else if name g = cPL then
          Inr (h[qs st := ApplyPauli (ck pol) (h ! qs st) (obj_qubits g) (probs g) (dim' st)])
        else if length (kraus_operator_set g) \<noteq> 0 then
          Inr (h[qs st := ApplyKraus (ck pol) (h ! qs st) (obj_qubits g) (kraus_operator_set g) (dim' st)])
        else if name g = hcAD then
          Inr (h[qs st := ApplyHermitianAmplitudeDamping (ck pol) (h ! qs st) (obj_qubits g)
                            (damping_coeff g) (dim' st)])
        else Inl (RuntimeError ''This noise channel not implemented.''))"

text \<open>
  The angle and the derivative flag of a rotation gate, as each of the seven rotation
  branches of \<open>ApplyGate\<close> computes them (lines 171--176 and their six repetitions).
\<close>

definition resolve_val ::
  "('h, 'e) qs_policy \<Rightarrow> BasicGate \<Rightarrow> ParameterResolver \<Rightarrow> bool \<Rightarrow> sim_error + (real \<times> bool)" where
  "resolve_val pol g pr diff =
     (if \<not> parameterized g then Inr (applied_value g, False)
      else
        case Combination (prm pol) (params g) pr of
          Inl e \<Rightarrow> Inl e
        | Inr c \<Rightarrow> Inr (const_value c, diff))"

text \<open>A Z-like kernel of the sources, run on the buffer of the state.\<close>

definition run_zlike ::
  "'e DensityMatrixState \<Rightarrow> heap \<Rightarrow> qs_data_p_t option
   \<Rightarrow> sim_error + (nat \<times> 'e DensityMatrixState \<times> heap)" where
  "run_zlike st h r =
     (case r of
        None \<Rightarrow> Inl UndefinedBehaviour
      | Some b \<Rightarrow> Inr (2, st, h[qs st := b]))"

text \<open>
  \<open>ApplyGate\<close>, lines 136--234. The comparisons of the name come first, in the order of the
  source; the flags \<open>is_measure_\<close> and \<open>is_channel_\<close> are read only when no name matches.
  Every branch but the measurement falls through to \<open>return 2\<close>.
\<close>

definition ApplyGate ::
  "('h, 'e) qs_policy \<Rightarrow> BasicGate \<Rightarrow> ParameterResolver \<Rightarrow> bool \<Rightarrow> 'e DensityMatrixState \<times> heap
   \<Rightarrow> sim_error + (nat \<times> 'e DensityMatrixState \<times> heap)" where
  "ApplyGate pol g pr diff sh =
     (case sh of (st, h) \<Rightarrow>
        if name g = gI then Inr (2, st, h)
        else if name g = gX then
          Inr (2, st, h[qs st := ApplyX (gk pol) (h ! qs st) (obj_qubits g) (ctrl_qubits g) (dim' st)])
        else if name g = gCNOT then
          (case obj_qubits g of
             [] \<Rightarrow> Inl UndefinedBehaviour
           | q # rest \<Rightarrow>
               Inr (2, st, h[qs st := ApplyX (gk pol) (h ! qs st) [q] (ctrl_qubits g @ rest) (dim' st)]))
        else if name g = gY then
          Inr (2, st, h[qs st := ApplyY (gk pol) (h ! qs st) (obj_qubits g) (ctrl_qubits g) (dim' st)])
        else if name g = gZ then
          run_zlike st h (ApplyZ (h ! qs st) (obj_qubits g) (ctrl_qubits g) (dim' st))
        else if name g = gH then
          Inr (2, st, h[qs st := ApplyH (gk pol) (h ! qs st) (obj_qubits g) (ctrl_qubits g) (dim' st)])
        else if name g = gS then
          (if daggered g then
             run_zlike st h (ApplySdag (h ! qs st) (obj_qubits g) (ctrl_qubits g) (dim' st))
           else
             run_zlike st h (ApplySGate (h ! qs st) (obj_qubits g) (ctrl_qubits g) (dim' st)))
        else if name g = gT then
          (if daggered g then
             run_zlike st h (ApplyTdag (h ! qs st) (obj_qubits g) (ctrl_qubits g) (dim' st))
           else
             run_zlike st h (ApplyT (h ! qs st) (obj_qubits g) (ctrl_qubits g) (dim' st)))
        else if name g = gSWAP then
          Inr (2, st, h[qs st := ApplySWAP (gk pol) (h ! qs st) (obj_qubits g) (ctrl_qubits g) (dim' st)])
        else if name g = gISWAP then
          Inr (2, st, h[qs st := ApplyISWAP (gk pol) (h ! qs st) (obj_qubits g) (ctrl_qubits g) (dim' st)])
        else if name g = gRX then
          (case resolve_val pol g pr diff of
             Inl e \<Rightarrow> Inl e
           | Inr (val, diff) \<Rightarrow>
               Inr (2, st, h[qs st := ApplyRX (gk pol) (h ! qs st) (obj_qubits g) (ctrl_qubits g) val (dim' st) diff]))
        else if name g = gRY then
          (case resolve_val pol g pr diff of
             Inl e \<Rightarrow> Inl e
           | Inr (val, diff) \<Rightarrow>
               Inr (2, st, h[qs st := ApplyRY (gk pol) (h ! qs st) (obj_qubits g) (ctrl_qubits g) val (dim' st) diff]))
        else if name g = gRZ then
          (case resolve_val pol g pr diff of
             Inl e \<Rightarrow> Inl e
           | Inr (val, diff) \<Rightarrow>
               Inr (2, st, h[qs st := ApplyRZ (gk pol) (h ! qs st) (obj_qubits g) (ctrl_qubits g) val (dim' st) diff]))
        else if name g = gXX then
          (case resolve_val pol g pr diff of
             Inl e \<Rightarrow> Inl e
           | Inr (val, diff) \<Rightarrow>
               Inr (2, st, h[qs st := ApplyXX (gk pol) (h ! qs st) (obj_qubits g) (ctrl_qubits g) val (dim' st) diff]))
        else if name g = gZZ then
          (case resolve_val pol g pr diff of
             Inl e \<Rightarrow> Inl e
           | Inr (val, diff) \<Rightarrow>
               Inr (2, st, h[qs st := ApplyZZ (gk pol) (h ! qs st) (obj_qubits g) (ctrl_qubits g) val (dim' st) diff]))
        else if name g = gYY then
          (case resolve_val pol g pr diff of
             Inl e \<Rightarrow> Inl e
           | Inr (val, diff) \<Rightarrow>
               Inr (2, st, h[qs st := ApplyYY (gk pol) (h ! qs st) (obj_qubits g) (ctrl_qubits g) val (dim' st) diff]))
        else if name g = gPS then
          (case resolve_val pol g pr diff of
             Inl e \<Rightarrow> Inl e
           | Inr (val, diff) \<Rightarrow>
               run_zlike st h
                 (ApplyPS (SetToZeroExcept (gk pol)) (h ! qs st) (obj_qubits g) (ctrl_qubits g) val (dim' st) diff))
        else if is_measure g then ApplyMeasure pol g (st, h)
        else if is_channel g then
          (case ApplyChannel pol g (st, h) of
             Inl e \<Rightarrow> Inl e
           | Inr h' \<Rightarrow> Inr (2, st, h'))
        else Inl (InvalidArgument (''gate '' @ name g @ '' not implement.'')))"

text \<open>\<open>ApplyHamiltonian\<close> and \<open>GetExpectation\<close>, lines 253--256 and 312--315.\<close>

definition ApplyHamiltonian ::
  "('h, 'e) qs_policy \<Rightarrow> 'h \<Rightarrow> 'e DensityMatrixState \<times> heap \<Rightarrow> heap" where
  "ApplyHamiltonian pol ham sh =
     (case sh of (st, h) \<Rightarrow> h[qs st := ApplyTerms (hk pol) (h ! qs st) ham (dim' st)])"

definition GetExpectation_of ::
  "('h, 'e) qs_policy \<Rightarrow> 'h \<Rightarrow> 'e DensityMatrixState \<times> heap \<Rightarrow> complex" where
  "GetExpectation_of pol ham sh =
     (case sh of (st, h) \<Rightarrow> GetExpectation (hk pol) (h ! qs st) ham (dim' st))"

text \<open>\<open>ExpectDiffGate\<close>, lines 269--297: a static function of two buffers and a gate.\<close>

definition ExpectDiffGate ::
  "('h, 'e) qs_policy \<Rightarrow> qs_data_p_t \<Rightarrow> qs_data_p_t \<Rightarrow> BasicGate \<Rightarrow> index_t \<Rightarrow> sim_error + complex" where
  "ExpectDiffGate pol dens_matrix ham_matrix g d =
     (if name g = gRX then
        Inr (ExpectDiffRX (hk pol) dens_matrix ham_matrix (obj_qubits g) (ctrl_qubits g) d)
      else if name g = gRY then
        Inr (ExpectDiffRY (hk pol) dens_matrix ham_matrix (obj_qubits g) (ctrl_qubits g) d)
      else if name g = gRZ then
        Inr (ExpectDiffRZ (hk pol) dens_matrix ham_matrix (obj_qubits g) (ctrl_qubits g) d)
      else if name g = gXX then
        Inr (ExpectDiffXX (hk pol) dens_matrix ham_matrix (obj_qubits g) (ctrl_qubits g) d)
      else if name g = gZZ then
        Inr (ExpectDiffZZ (hk pol) dens_matrix ham_matrix (obj_qubits g) (ctrl_qubits g) d)
      else if name g = gYY then
        Inr (ExpectDiffYY (hk pol) dens_matrix ham_matrix (obj_qubits g) (ctrl_qubits g) d)
      else if name g = gPS then
        Inr (ExpectDiffPS (hk pol) dens_matrix ham_matrix (obj_qubits g) (ctrl_qubits g) d)
      else Inl (InvalidArgument (''gate '' @ name g @ '' not implement.'')))"

text \<open>
  \<open>ApplyCircuit\<close>, lines 299--310: the loop over the gates, with the map of the outcomes
  recorded so far. A measurement is recorded under the name of its gate; a failure of a
  gate ends the loop.
\<close>

fun ApplyCircuit_loop ::
  "('h, 'e) qs_policy \<Rightarrow> ParameterResolver \<Rightarrow> BasicGate list \<Rightarrow> (string \<rightharpoonup> nat)
   \<Rightarrow> 'e DensityMatrixState \<times> heap
   \<Rightarrow> sim_error + ((string \<rightharpoonup> nat) \<times> 'e DensityMatrixState \<times> heap)" where
  "ApplyCircuit_loop pol pr [] result sh = Inr (result, sh)"
| "ApplyCircuit_loop pol pr (g # circ) result sh =
     (if is_measure g then
        case ApplyMeasure pol g sh of
          Inl e \<Rightarrow> Inl e
        | Inr (b, sh') \<Rightarrow> ApplyCircuit_loop pol pr circ (result(name g \<mapsto> b)) sh'
      else
        case ApplyGate pol g pr False sh of
          Inl e \<Rightarrow> Inl e
        | Inr (_, sh') \<Rightarrow> ApplyCircuit_loop pol pr circ result sh')"

definition ApplyCircuit ::
  "('h, 'e) qs_policy \<Rightarrow> BasicGate list \<Rightarrow> ParameterResolver \<Rightarrow> 'e DensityMatrixState \<times> heap
   \<Rightarrow> sim_error + ((string \<rightharpoonup> nat) \<times> 'e DensityMatrixState \<times> heap)" where
  "ApplyCircuit pol circ pr sh = ApplyCircuit_loop pol pr circ Map.empty sh"

section \<open>Gradient engine\<close>

subsection \<open>Accumulation of one gate's derivative\<close>

text \<open>
  A gate carries a derivative when \<open>params_.data_.size() != params_.no_grad_parameters_.size()\<close>.
\<close>

definition has_grad_params :: "BasicGate \<Rightarrow> bool" where
  "has_grad_params g \<longleftrightarrow> length (data (params g)) \<noteq> length (no_grad_parameters (params g))"

text \<open>
  The loop over the names that require a gradient in the reversible mode (lines 341--343
  and 386--388):
  \<open>f_and_g[1 + p_map.at(it)] += 2 * std::real(gi) * -g->params_.data_.at(it)\<close>.
  \<open>at\<close> throws \<open>std::out_of_range\<close> for a missing key; an index beyond \<open>f_and_g\<close> is an
  undefined write.
\<close>

fun grad_accumulate_reversible ::
  "(string \<times> nat) list \<Rightarrow> ParameterResolver \<Rightarrow> complex \<Rightarrow> string list \<Rightarrow> complex list
   \<Rightarrow> sim_error + complex list" where
  "grad_accumulate_reversible p_map prs gi [] f_and_g = Inr f_and_g"
| "grad_accumulate_reversible p_map prs gi (it # its) f_and_g =
     (case map_of p_map it of
        None \<Rightarrow> Inl OutOfRange
      | Some idx \<Rightarrow>
          (case map_of (data prs) it of
             None \<Rightarrow> Inl OutOfRange
           | Some coeff \<Rightarrow>
               if 1 + idx < length f_and_g then
                 grad_accumulate_reversible p_map prs gi its
                   (f_and_g[1 + idx := f_and_g ! (1 + idx) + of_real (2 * Re gi * - coeff)])
               else Inl UndefinedBehaviour))"

text \<open>
  The same loop in the noise mode (lines 484--486 and 539--541):
  \<open>f_and_g[1 + p_map.at(it)] += 2 * std::real(gi) * circ[n]->params_.data_.at(it)\<close>.
\<close>

fun grad_accumulate_noise ::
  "(string \<times> nat) list \<Rightarrow> ParameterResolver \<Rightarrow> complex \<Rightarrow> string list \<Rightarrow> complex list
   \<Rightarrow> sim_error + complex list" where
  "grad_accumulate_noise p_map prs gi [] f_and_g = Inr f_and_g"
| "grad_accumulate_noise p_map prs gi (it # its) f_and_g =
     (case map_of p_map it of
        None \<Rightarrow> Inl OutOfRange
      | Some idx \<Rightarrow>
          (case map_of (data prs) it of
             None \<Rightarrow> Inl OutOfRange
           | Some coeff \<Rightarrow>
               if 1 + idx < length f_and_g then
                 grad_accumulate_noise p_map prs gi its
                   (f_and_g[1 + idx := f_and_g ! (1 + idx) + of_real (2 * Re gi * coeff)])
               else Inl UndefinedBehaviour))"

subsection \<open>One binding, one Hamiltonian\<close>

text \<open>
  The map from parameter names to positions, lines 322--328: the encoder names first, the
  ansatz names after them; an assignment to a name already present overwrites its position.
\<close>

definition build_p_map :: "string list \<Rightarrow> string list \<Rightarrow> (string \<times> nat) list" where
  "build_p_map enc_name ans_name =
     fold (\<lambda>i. AList.update (ans_name ! i) (i + length enc_name)) [0..<length ans_name]
       (fold (\<lambda>i. AList.update (enc_name ! i) i) [0..<length enc_name] [])"

text \<open>
  The loop over the adjoint circuit of the reversible mode, lines 338--347. The loop state
  is \<open>f_and_g\<close>, the two states \<open>sim_qs\<close> and \<open>sim_ham\<close>, and the memory.
\<close>

fun reversible_loop ::
  "('h, 'e) qs_policy \<Rightarrow> ParameterResolver \<Rightarrow> (string \<times> nat) list \<Rightarrow> index_t \<Rightarrow> BasicGate list
   \<Rightarrow> complex list \<times> 'e DensityMatrixState \<times> 'e DensityMatrixState \<times> heap
   \<Rightarrow> sim_error + (complex list \<times> heap)" where
  "reversible_loop pol pr p_map d [] (f_and_g, sim_qs, sim_ham, h) = Inr (f_and_g, h)"
| "reversible_loop pol pr p_map d (g # herm_circ) (f_and_g, sim_qs, sim_ham, h) =
     (case (if has_grad_params g then
              case ExpectDiffGate pol (h ! qs sim_qs) (h ! qs sim_ham) g d of
                Inl e \<Rightarrow> Inl e
              | Inr gi \<Rightarrow>
                  grad_accumulate_reversible p_map (params g) gi
                    (GetRequiresGradParameters (params g)) f_and_g
            else Inr f_and_g) of
        Inl e \<Rightarrow> Inl e
      | Inr f_and_g' \<Rightarrow>
          (case ApplyGate pol g pr False (sim_ham, h) of
             Inl e \<Rightarrow> Inl e
           | Inr (_, sim_ham', h') \<Rightarrow>
               (case ApplyGate pol g pr False (sim_qs, h') of
                  Inl e \<Rightarrow> Inl e
                | Inr (_, sim_qs', h'') \<Rightarrow>
                    reversible_loop pol pr p_map d herm_circ (f_and_g', sim_qs', sim_ham', h''))))"

text \<open>
  \<open>GetExpectationWithReversibleGradOneOne\<close>, lines 317--349. \<open>enc_data[0]\<close> of an empty
  vector is an undefined read. The result is \<open>f_and_g\<close> and the memory after the call.
\<close>

definition GetExpectationWithReversibleGradOneOne ::
  "('h, 'e) qs_policy \<Rightarrow> 'h \<Rightarrow> BasicGate list \<Rightarrow> BasicGate list \<Rightarrow> real list list \<Rightarrow> real list
   \<Rightarrow> string list \<Rightarrow> string list \<Rightarrow> 'e DensityMatrixState \<times> heap
   \<Rightarrow> sim_error + (complex list \<times> heap)" where
  "GetExpectationWithReversibleGradOneOne pol ham circ herm_circ enc_data ans_data enc_name ans_name sh =
     (case sh of (this, h) \<Rightarrow>
        let p_map = build_p_map enc_name ans_name
        in case enc_data of
             [] \<Rightarrow> Inl UndefinedBehaviour
           | enc0 # _ \<Rightarrow>
               (case SetItems (prm pol) enc_name enc0
                       \<lparr>data = [], no_grad_parameters = [], const_value = 0\<rparr> of
                  Inl e \<Rightarrow> Inl e
                | Inr pr0 \<Rightarrow>
                    (case SetItems (prm pol) ans_name ans_data pr0 of
                       Inl e \<Rightarrow> Inl e
                     | Inr pr \<Rightarrow>
                         let f_and_g = replicate (1 + length p_map) 0
                         in case ApplyCircuit pol circ pr (copy_state pol this h) of
                              Inl e \<Rightarrow> Inl e
                            | Inr (_, sim_qs, h1) \<Rightarrow>
                                let f_and_g = f_and_g[0 := GetExpectation (hk pol) (h1 ! qs sim_qs) ham (dim' this)];
                                    ham_matrix = HamiltonianMatrix (hk pol) ham (dim' this);
                                    sim_ham = adopt_state pol (length h1) (n_qubits this) (seed this)
                                in reversible_loop pol pr p_map (dim' this) herm_circ
                                     (f_and_g, sim_qs, sim_ham, h1 @ [ham_matrix]))))"

text \<open>\<open>sim_qs.ApplyGate(circ[j], pr)\<close> for the gates of a list, in order (lines 480--482).\<close>

fun apply_gates ::
  "('h, 'e) qs_policy \<Rightarrow> ParameterResolver \<Rightarrow> BasicGate list \<Rightarrow> 'e DensityMatrixState \<times> heap
   \<Rightarrow> sim_error + ('e DensityMatrixState \<times> heap)" where
  "apply_gates pol pr [] sh = Inr sh"
| "apply_gates pol pr (g # gs) sh =
     (case ApplyGate pol g pr False sh of
        Inl e \<Rightarrow> Inl e
      | Inr (_, sh') \<Rightarrow> apply_gates pol pr gs sh')"

text \<open>
  The loop of the noise mode, lines 477--490, over the gates of \<open>herm_circ\<close>. The counter
  \<open>n\<close> is an \<open>index_t\<close> and \<open>--n\<close> wraps around at zero; \<open>circ[n]\<close> beyond the end of \<open>circ\<close>
  is an undefined read. When \<open>circ[n]\<close> carries a derivative the gates \<open>circ[0], ..., circ[n]\<close>
  are applied to \<open>sim_qs\<close>, the derivative is read and accumulated, and \<open>sim_qs\<close> is reset to
  the buffer of the caller.
\<close>

fun noise_loop ::
  "('h, 'e) qs_policy \<Rightarrow> 'e DensityMatrixState \<Rightarrow> ParameterResolver \<Rightarrow> (string \<times> nat) list
   \<Rightarrow> BasicGate list \<Rightarrow> BasicGate list
   \<Rightarrow> index_t \<times> complex list \<times> 'e DensityMatrixState \<times> 'e DensityMatrixState \<times> heap
   \<Rightarrow> sim_error + (complex list \<times> heap)" where
  "noise_loop pol this pr p_map circ [] (n, f_and_g, sim_qs, sim_ham, h) = Inr (f_and_g, h)"
| "noise_loop pol this pr p_map circ (hg # herm_circ) (n, f_and_g, sim_qs, sim_ham, h) =
     (let n' = n - 1
      in if length circ \<le> unat n' then Inl UndefinedBehaviour
         else
           case (if has_grad_params (circ ! unat n') then
                   case apply_gates pol pr (take (Suc (unat n')) circ) (sim_qs, h) of
                     Inl e \<Rightarrow> Inl e
                   | Inr (sim_qs', h') \<Rightarrow>
                       (case ExpectDiffGate pol (h' ! qs sim_qs') (h' ! qs sim_ham) (circ ! unat n')
                               (dim' this) of
                          Inl e \<Rightarrow> Inl e
                        | Inr gi \<Rightarrow>
                            (case grad_accumulate_noise p_map (params (circ ! unat n')) gi
                                    (GetRequiresGradParameters (params (circ ! unat n'))) f_and_g of
                               Inl e \<Rightarrow> Inl e
                             | Inr f_and_g' \<Rightarrow>
                                 Inr (f_and_g', sim_qs', member_CopyQS sim_qs' (qs this) h')))
                 else Inr (f_and_g, sim_qs, h)) of
             Inl e \<Rightarrow> Inl e
           | Inr (f_and_g', sim_qs', h') \<Rightarrow>
               (case ApplyGate pol hg pr False (sim_ham, h') of
                  Inl e \<Rightarrow> Inl e
                | Inr (_, sim_ham', h'') \<Rightarrow>
                    noise_loop pol this pr p_map circ herm_circ (n', f_and_g', sim_qs', sim_ham', h'')))"

text \<open>
  The statement of lines 473--475 and 527--529:
  \<open>if (circ.size() != herm_circ.size()) { std::runtime_error("..."); }\<close>.
  The error object is constructed and destroyed; there is no \<open>throw\<close>. The model gives the
  list of the errors constructed, which the callers below bind and never read.
\<close>

definition size_check :: "BasicGate list \<Rightarrow> BasicGate list \<Rightarrow> sim_error list" where
  "size_check circ herm_circ =
     (if length circ \<noteq> length herm_circ
      then [RuntimeError ''In density matrix mode, circ and herm_circ must be the same size.'']
      else [])"

text \<open>\<open>GetExpectationWithNoiseGradOneOne\<close>, lines 460--492.\<close>

definition GetExpectationWithNoiseGradOneOne ::
  "('h, 'e) qs_policy \<Rightarrow> 'h \<Rightarrow> BasicGate list \<Rightarrow> BasicGate list \<Rightarrow> ParameterResolver
   \<Rightarrow> (string \<times> nat) list \<Rightarrow> 'e DensityMatrixState \<times> heap
   \<Rightarrow> sim_error + (complex list \<times> heap)" where
  "GetExpectationWithNoiseGradOneOne pol ham circ herm_circ pr p_map sh =
     (case sh of (this, h) \<Rightarrow>
        let f_and_g = replicate (1 + length p_map) 0
        in case ApplyCircuit pol circ pr (copy_state pol this h) of
             Inl e \<Rightarrow> Inl e
           | Inr (_, sim_qs, h1) \<Rightarrow>
               let f_and_g = f_and_g[0 := GetExpectation (hk pol) (h1 ! qs sim_qs) ham (dim' this)];
                   h2 = member_CopyQS sim_qs (qs this) h1;
                   ham_matrix = HamiltonianMatrix (hk pol) ham (dim' this);
                   sim_ham = adopt_state pol (length h2) (n_qubits this) (seed this);
                   constructed = size_check circ herm_circ;
                   n = (of_nat (length circ) :: index_t)
               in noise_loop pol this pr p_map circ herm_circ
                    (n, f_and_g, sim_qs, sim_ham, h2 @ [ham_matrix]))"

subsection \<open>One binding, many Hamiltonians\<close>

text \<open>
  \<open>int\<close> is a 32-bit signed integer; \<open>to_int\<close> is the conversion of an integer value to it
  (\<open>static_cast<int>(n_hams)\<close> and the assignment \<open>n_thread = n_hams\<close>), \<open>to_size_t\<close> the
  conversion to the 64-bit unsigned \<open>size_t\<close> (of \<open>n_thread\<close> in \<open>n_hams / n_thread\<close>).
\<close>

definition to_int :: "int \<Rightarrow> int" where
  "to_int x = (x + 2 ^ 31) mod 2 ^ 32 - 2 ^ 31"

definition to_size_t :: "int \<Rightarrow> nat" where
  "to_size_t x = nat (x mod 2 ^ 64)"

text \<open>
  The clamp of \<open>n_thread\<close>, lines 355--362 of \<open>GetExpectationWithReversibleGradOneMulti\<close> and,
  word for word, lines 498--505 of \<open>GetExpectationWithNoiseGradOneMulti\<close>.
\<close>

definition clamp_n_thread :: "int \<Rightarrow> nat \<Rightarrow> int" where
  "clamp_n_thread n_thread n_hams =
     (let max_thread = 15;
          n_thread = (if n_thread > max_thread then max_thread else n_thread);
          n_thread = (if n_thread > to_int (int n_hams) then to_int (int n_hams) else n_thread)
      in n_thread)"

text \<open>
  The number of groups, lines 366--369 and 509--512: \<open>n_hams / n_thread\<close> and
  \<open>n_hams % n_thread\<close> are unsigned; a zero divisor is undefined.
\<close>

definition group_count :: "nat \<Rightarrow> int \<Rightarrow> sim_error + int" where
  "group_count n_hams n_thread =
     (if to_size_t n_thread = 0 then Inl UndefinedBehaviour
      else
        let n_group = to_int (int (n_hams div to_size_t n_thread))
        in Inr (if n_hams mod to_size_t n_thread \<noteq> 0 then n_group + 1 else n_group))"

text \<open>The bounds \<open>start\<close> and \<open>end\<close> of group \<open>i\<close>, lines 371--375 and 514--518.\<close>

definition group_bounds :: "nat \<Rightarrow> int \<Rightarrow> int \<Rightarrow> int \<times> int" where
  "group_bounds n_hams n_thread i =
     (let start = i * n_thread;
          end' = (i + 1) * n_thread;
          end' = (if end' > to_int (int n_hams) then to_int (int n_hams) else end')
      in (start, end'))"

text \<open>
  Lines 377--381 and 520--524, for the Hamiltonians \<open>j\<close> of a group in order: the value
  \<open>f_and_g[j][0]\<close> and the state \<open>sim_hams[j - start]\<close>, which adopts a freshly allocated
  matrix of the Hamiltonian.
\<close>

fun init_sim_hams ::
  "('h, 'e) qs_policy \<Rightarrow> 'e DensityMatrixState \<Rightarrow> 'h list \<Rightarrow> qs_data_p_t \<Rightarrow> int list
   \<Rightarrow> complex list list \<times> 'e DensityMatrixState list \<times> heap
   \<Rightarrow> sim_error + (complex list list \<times> 'e DensityMatrixState list \<times> heap)" where
  "init_sim_hams pol this hams sim_qs_buf [] acc = Inr acc"
| "init_sim_hams pol this hams sim_qs_buf (j # js) (f_and_g, sim_hams, h) =
     (if j < 0 \<or> int (length hams) \<le> j then Inl UndefinedBehaviour
      else
        let row = (f_and_g ! nat j)[0 := GetExpectation (hk pol) sim_qs_buf (hams ! nat j) (dim' this)];
            ham_matrix = HamiltonianMatrix (hk pol) (hams ! nat j) (dim' this);
            sim_ham = adopt_state pol (length h) (n_qubits this) (seed this)
        in init_sim_hams pol this hams sim_qs_buf js
             (f_and_g[nat j := row], sim_hams @ [sim_ham], h @ [ham_matrix]))"

text \<open>
  Lines 384--389 and 537--542, for the Hamiltonians of a group: the derivative of the gate
  against \<open>sim_hams[j - start]\<close>, accumulated into row \<open>j\<close> by \<open>accumulate\<close>, which is the loop
  of the reversible or of the noise mode.
\<close>

fun diff_rows ::
  "('h, 'e) qs_policy \<Rightarrow> index_t \<Rightarrow> (complex \<Rightarrow> complex list \<Rightarrow> sim_error + complex list)
   \<Rightarrow> BasicGate \<Rightarrow> qs_data_p_t \<Rightarrow> 'e DensityMatrixState list \<Rightarrow> heap \<Rightarrow> int \<Rightarrow> int list
   \<Rightarrow> complex list list \<Rightarrow> sim_error + complex list list" where
  "diff_rows pol d accumulate g sim_qs_buf sim_hams h start [] f_and_g = Inr f_and_g"
| "diff_rows pol d accumulate g sim_qs_buf sim_hams h start (j # js) f_and_g =
     (if j < 0 \<or> int (length f_and_g) \<le> j \<or> j < start \<or> int (length sim_hams) \<le> j - start
      then Inl UndefinedBehaviour
      else
        case ExpectDiffGate pol sim_qs_buf (h ! qs (sim_hams ! nat (j - start))) g d of
          Inl e \<Rightarrow> Inl e
        | Inr gi \<Rightarrow>
            (case accumulate gi (f_and_g ! nat j) of
               Inl e \<Rightarrow> Inl e
             | Inr row \<Rightarrow>
                 diff_rows pol d accumulate g sim_qs_buf sim_hams h start js (f_and_g[nat j := row])))"

text \<open>\<open>sim_hams[j - start].ApplyGate(g, pr)\<close> for the states of a group, in order.\<close>

fun apply_gate_all ::
  "('h, 'e) qs_policy \<Rightarrow> BasicGate \<Rightarrow> ParameterResolver \<Rightarrow> 'e DensityMatrixState list
   \<Rightarrow> 'e DensityMatrixState list \<times> heap \<Rightarrow> sim_error + ('e DensityMatrixState list \<times> heap)" where
  "apply_gate_all pol g pr [] acc = Inr acc"
| "apply_gate_all pol g pr (sim # sims) (done, h) =
     (case ApplyGate pol g pr False (sim, h) of
        Inl e \<Rightarrow> Inl e
      | Inr (_, sim', h') \<Rightarrow> apply_gate_all pol g pr sims (done @ [sim'], h'))"




text \<open>The loop over \<open>herm_circ\<close> within a group, noise mode, lines 531--548.\<close>

fun noise_group_loop ::
  "('h, 'e) qs_policy \<Rightarrow> 'e DensityMatrixState \<Rightarrow> ParameterResolver \<Rightarrow> (string \<times> nat) list
   \<Rightarrow> BasicGate list \<Rightarrow> int \<Rightarrow> int list \<Rightarrow> BasicGate list
   \<Rightarrow> index_t \<times> complex list list \<times> 'e DensityMatrixState \<times> 'e DensityMatrixState list \<times> heap
   \<Rightarrow> sim_error + (complex list list \<times> 'e DensityMatrixState \<times> heap)" where
  "noise_group_loop pol this pr p_map circ start js [] (n, f_and_g, sim_qs, sim_hams, h) =
     Inr (f_and_g, sim_qs, h)"
| "noise_group_loop pol this pr p_map circ start js (hg # herm_circ) (n, f_and_g, sim_qs, sim_hams, h) =
     (let n' = n - 1
      in if length circ \<le> unat n' then Inl UndefinedBehaviour
         else
           case (if has_grad_params (circ ! unat n') then
                   case apply_gates pol pr (take (Suc (unat n')) circ) (sim_qs, h) of
                     Inl e \<Rightarrow> Inl e
                   | Inr (sim_qs', h') \<Rightarrow>
                       (case diff_rows pol (dim' this)
                               (\<lambda>gi. grad_accumulate_noise p_map (params (circ ! unat n')) gi
                                        (GetRequiresGradParameters (params (circ ! unat n'))))
                               (circ ! unat n') (h' ! qs sim_qs') sim_hams h' start js f_and_g of
                          Inl e \<Rightarrow> Inl e
                        | Inr f_and_g' \<Rightarrow>
                            Inr (f_and_g', sim_qs', member_CopyQS sim_qs' (qs this) h'))
                 else Inr (f_and_g, sim_qs, h)) of
             Inl e \<Rightarrow> Inl e
           | Inr (f_and_g', sim_qs', h') \<Rightarrow>
               (case apply_gate_all pol hg pr sim_hams ([], h') of
                  Inl e \<Rightarrow> Inl e
                | Inr (sim_hams', h'') \<Rightarrow>
                    noise_group_loop pol this pr p_map circ start js herm_circ
                      (n', f_and_g', sim_qs', sim_hams', h'')))"

text \<open>The loop over the groups, lines 513--549.\<close>

fun noise_groups ::
  "('h, 'e) qs_policy \<Rightarrow> 'e DensityMatrixState \<Rightarrow> 'h list \<Rightarrow> ParameterResolver
   \<Rightarrow> (string \<times> nat) list \<Rightarrow> BasicGate list \<Rightarrow> BasicGate list \<Rightarrow> int \<Rightarrow> int list
   \<Rightarrow> complex list list \<times> 'e DensityMatrixState \<times> heap
   \<Rightarrow> sim_error + (complex list list \<times> heap)" where
  "noise_groups pol this hams pr p_map circ herm_circ n_thread [] (f_and_g, sim_qs, h) =
     Inr (f_and_g, h)"
| "noise_groups pol this hams pr p_map circ herm_circ n_thread (i # groups) (f_and_g, sim_qs, h) =
     (case group_bounds (length hams) n_thread i of
        (start, end') \<Rightarrow>
          if end' < start then Inl AllocationFailure
          else
            case init_sim_hams pol this hams (h ! qs sim_qs) [start..end' - 1] (f_and_g, [], h) of
              Inl e \<Rightarrow> Inl e
            | Inr (f_and_g1, sim_hams, h1) \<Rightarrow>
                let h2 = member_CopyQS sim_qs (qs this) h1;
                    constructed = size_check circ herm_circ;
                    n = (of_nat (length circ) :: index_t)
                in case noise_group_loop pol this pr p_map circ start [start..end' - 1] herm_circ
                          (n, f_and_g1, sim_qs, sim_hams, h2) of
                     Inl e \<Rightarrow> Inl e
                   | Inr (f_and_g2, sim_qs', h3) \<Rightarrow>
                       noise_groups pol this hams pr p_map circ herm_circ n_thread groups
                         (f_and_g2, sim_qs', h3))"

text \<open>\<open>GetExpectationWithNoiseGradOneMulti\<close>, lines 494--551.\<close>

definition GetExpectationWithNoiseGradOneMulti ::
  "('h, 'e) qs_policy \<Rightarrow> 'h list \<Rightarrow> BasicGate list \<Rightarrow> BasicGate list \<Rightarrow> ParameterResolver
   \<Rightarrow> (string \<times> nat) list \<Rightarrow> int \<Rightarrow> 'e DensityMatrixState \<times> heap
   \<Rightarrow> sim_error + (complex list list \<times> heap)" where
  "GetExpectationWithNoiseGradOneMulti pol hams circ herm_circ pr p_map n_thread sh =
     (case sh of (this, h) \<Rightarrow>
        let n_hams = length hams;
            n_thread = clamp_n_thread n_thread n_hams;
            f_and_g = replicate n_hams (replicate (1 + length p_map) 0)
        in case ApplyCircuit pol circ pr (copy_state pol this h) of
             Inl e \<Rightarrow> Inl e
           | Inr (_, sim_qs, h1) \<Rightarrow>
               (case group_count n_hams n_thread of
                  Inl e \<Rightarrow> Inl e
                | Inr n_group \<Rightarrow>
                    noise_groups pol this hams pr p_map circ herm_circ n_thread [0..n_group - 1]
                      (f_and_g, sim_qs, h1)))"

section \<open>Sampling engine\<close>

text \<open>
  Lines 625--628: \<open>res1[val] = res0[name]\<close> for the entries of \<open>key_map\<close> in the order of the
  map. \<open>res0[name]\<close> of a name that was not recorded is 0; a column beyond \<open>res1\<close> is an
  undefined write.
\<close>

fun fill_res1 :: "(string \<times> nat) list \<Rightarrow> (string \<rightharpoonup> nat) \<Rightarrow> nat list \<Rightarrow> sim_error + nat list" where
  "fill_res1 [] res0 res1 = Inr res1"
| "fill_res1 ((name', val) # key_map) res0 res1 =
     (if val < length res1 then
        fill_res1 key_map res0 (res1[val := (case res0 name' of None \<Rightarrow> 0 | Some b \<Rightarrow> b)])
      else Inl UndefinedBehaviour)"





section \<open>A policy for concrete runs\<close>

text \<open>
  A policy to run the container on concrete inputs: the engine is a counter seeded with
  the seed, a draw from \<open>[a, b)\<close> returns \<open>a\<close>, the kernels that are parameters leave the
  buffer as it is, a fresh buffer holds \<open>|0...0><0...0|\<close>, the matrix of a Hamiltonian is
  zero, an expectation is 0 and a derivative is \<open>Complex 2 7\<close>. The Hamiltonian terms are of
  type \<open>unit\<close>.
\<close>

definition demo_rnd :: "nat std_random" where
  "demo_rnd = \<lparr>RndEngine = (\<lambda>sd. sd), uniform_real = (\<lambda>a b e. (a, Suc e))\<rparr>"

definition demo_prm :: resolver_methods where
  "demo_prm = \<lparr>Combination = (\<lambda>p b. Inr p), SetItems = (\<lambda>ns ds p. Inr p)\<rparr>"

definition demo_gk :: gate_kernels where
  "demo_gk =
     \<lparr>InitState = (\<lambda>d. (replicate (packed_size d) 0)[0 := 1]),
      Copy = (\<lambda>b d. b),
      SetToZeroExcept = (\<lambda>b m d. b),
      ApplyX = (\<lambda>b os cs d. b), ApplyY = (\<lambda>b os cs d. b), ApplyH = (\<lambda>b os cs d. b),
      ApplySWAP = (\<lambda>b os cs d. b), ApplyISWAP = (\<lambda>b os cs d. b),
      ApplyRX = (\<lambda>b os cs v d f. b), ApplyRY = (\<lambda>b os cs v d f. b), ApplyRZ = (\<lambda>b os cs v d f. b),
      ApplyXX = (\<lambda>b os cs v d f. b), ApplyZZ = (\<lambda>b os cs v d f. b), ApplyYY = (\<lambda>b os cs v d f. b)\<rparr>"

definition demo_ck :: channel_kernels where
  "demo_ck =
     \<lparr>ApplyAmplitudeDamping = (\<lambda>b os c d. b), ApplyPhaseDamping = (\<lambda>b os c d. b),
      ApplyPauli = (\<lambda>b os ps d. b), ApplyKraus = (\<lambda>b os ks d. b),
      ApplyHermitianAmplitudeDamping = (\<lambda>b os c d. b)\<rparr>"

definition demo_hk :: "unit hamiltonian_kernels" where
  "demo_hk =
     \<lparr>ApplyTerms = (\<lambda>b t d. b), GetExpectation = (\<lambda>b t d. 0),
      HamiltonianMatrix = (\<lambda>t d. replicate (packed_size d) 0),
      ExpectDiffRX = (\<lambda>b m os cs d. Complex 2 7), ExpectDiffRY = (\<lambda>b m os cs d. Complex 2 7),
      ExpectDiffRZ = (\<lambda>b m os cs d. Complex 2 7), ExpectDiffXX = (\<lambda>b m os cs d. Complex 2 7),
      ExpectDiffZZ = (\<lambda>b m os cs d. Complex 2 7), ExpectDiffYY = (\<lambda>b m os cs d. Complex 2 7),
      ExpectDiffPS = (\<lambda>b m os cs d. Complex 2 7)\<rparr>"

definition demo_policy :: "(unit, nat) qs_policy" where
  "demo_policy = \<lparr>rnd = demo_rnd, prm = demo_prm, gk = demo_gk, ck = demo_ck, hk = demo_hk\<rparr>"

text \<open>A gate with the given name, object qubits and measurement flag, and no parameters.\<close>

definition plain_gate :: "string \<Rightarrow> qbits_t \<Rightarrow> bool \<Rightarrow> BasicGate" where
  "plain_gate nm os m =
     \<lparr>name = nm, obj_qubits = os, ctrl_qubits = [], daggered = False, parameterized = False,
      is_measure = m, is_channel = False, applied_value = 0,
      params = \<lparr>data = [], no_grad_parameters = [], const_value = 0\<rparr>,
      damping_coeff = 0, probs = [], kraus_operator_set = []\<rparr>"

text \<open>A one-qubit state whose buffer is the first of the memory.\<close>

definition demo_state :: "nat DensityMatrixState" where
  "demo_state = \<lparr>qs = 0, n_qubits = 1, dim' = 2, seed = 0, rnd_eng = 0\<rparr>"

text \<open>A rotation gate with the expression \<open>3a + 5b\<close>, of which \<open>b\<close> requires no gradient.\<close>

definition demo_rot :: BasicGate where
  "demo_rot = (plain_gate ''RX'' [0] False)
     \<lparr>parameterized := True,
      params := \<lparr>data = [(''a'', 3), (''b'', 5)], no_grad_parameters = [''b''], const_value = 0\<rparr>\<rparr>"

section \<open>Quantities the properties are stated in\<close>

text \<open>
  The offset of the stored entry \<open>(r, c)\<close> over the natural numbers, without the
  wrap-around of \<open>index_t\<close>; \<open>IdxMap\<close> agrees with it for dimensions up to \<open>2\<^sup>3\<^sup>2\<close>.
\<close>

definition tri :: "nat \<Rightarrow> nat \<Rightarrow> nat" where
  "tri r c = r * (r + 1) div 2 + c"

text \<open>
  Written from the spec: the probability \<open>p\<^sub>1\<close> of a measurement of qubit \<open>q\<close>, the sum of
  the diagonal entries \<open>\<rho>[r,r]\<close> over the indices \<open>r\<close> below the dimension whose bit \<open>q\<close>
  is set.
\<close>

definition measure_p1 :: "qs_data_p_t \<Rightarrow> nat \<Rightarrow> index_t \<Rightarrow> real" where
  "measure_p1 rho q d = (\<Sum>r\<leftarrow>filter (\<lambda>r. bit r q) (index_range (unat d)). Re (rho ! IdxMap r r))"

text \<open>
  The derivative readouts \<open>g\<^sub>i\<close> of the reversible loop, in order, each with its gate: the
  values of \<open>ExpectDiffGate\<close> at line 340, on the buffers the two states hold when the loop
  of lines 338--347 reaches the gate. The accumulation of lines 341--343 has no part in
  them.
\<close>

fun reversible_readouts ::
  "('h, 'e) qs_policy \<Rightarrow> ParameterResolver \<Rightarrow> index_t \<Rightarrow> BasicGate list
   \<Rightarrow> 'e DensityMatrixState \<times> 'e DensityMatrixState \<times> heap \<Rightarrow> (BasicGate \<times> complex) list" where
  "reversible_readouts pol pr d [] (sim_qs, sim_ham, h) = []"
| "reversible_readouts pol pr d (g # herm_circ) (sim_qs, sim_ham, h) =
     (if has_grad_params g then
        case ExpectDiffGate pol (h ! qs sim_qs) (h ! qs sim_ham) g d of
          Inl e \<Rightarrow> []
        | Inr gi \<Rightarrow> [(g, gi)]
      else [])
     @ (case ApplyGate pol g pr False (sim_ham, h) of
          Inl e \<Rightarrow> []
        | Inr (_, sim_ham', h') \<Rightarrow>
            (case ApplyGate pol g pr False (sim_qs, h') of
               Inl e \<Rightarrow> []
             | Inr (_, sim_qs', h'') \<Rightarrow>
                 reversible_readouts pol pr d herm_circ (sim_qs', sim_ham', h'')))"

text \<open>
  The derivative readouts of the noise loop, in order, each with its gate \<open>circ[n]\<close>: the
  values of \<open>ExpectDiffGate\<close> at line 483, on the buffer of \<open>sim_qs\<close> after the gates
  \<open>circ[0], ..., circ[n]\<close> and the buffer \<open>sim_ham\<close> holds when the loop of lines 477--490
  reaches the gate. The accumulation of lines 484--486 has no part in them.
\<close>

fun noise_readouts ::
  "('h, 'e) qs_policy \<Rightarrow> 'e DensityMatrixState \<Rightarrow> ParameterResolver \<Rightarrow> BasicGate list
   \<Rightarrow> BasicGate list \<Rightarrow> index_t \<times> 'e DensityMatrixState \<times> 'e DensityMatrixState \<times> heap
   \<Rightarrow> (BasicGate \<times> complex) list" where
  "noise_readouts pol this pr circ [] (n, sim_qs, sim_ham, h) = []"
| "noise_readouts pol this pr circ (hg # herm_circ) (n, sim_qs, sim_ham, h) =
     (let n' = n - 1
      in if length circ \<le> unat n' then []
         else
           case (if has_grad_params (circ ! unat n') then
                   case apply_gates pol pr (take (Suc (unat n')) circ) (sim_qs, h) of
                     Inl e \<Rightarrow> Inl e
                   | Inr (sim_qs', h') \<Rightarrow>
                       (case ExpectDiffGate pol (h' ! qs sim_qs') (h' ! qs sim_ham) (circ ! unat n')
                               (dim' this) of
                          Inl e \<Rightarrow> Inl e
                        | Inr gi \<Rightarrow>
                            Inr ([(circ ! unat n', gi)], sim_qs', member_CopyQS sim_qs' (qs this) h'))
                 else Inr ([], sim_qs, h)) of
             Inl e \<Rightarrow> []
           | Inr (r, sim_qs', h') \<Rightarrow>
               (case ApplyGate pol hg pr False (sim_ham, h') of
                  Inl e \<Rightarrow> r
                | Inr (_, sim_ham', h'') \<Rightarrow>
                    r @ noise_readouts pol this pr circ herm_circ (n', sim_qs', sim_ham', h'')))"

text \<open>
  Written from the spec: what a list of readouts contributes to the entry \<open>j\<close> of
  \<open>f_and_g\<close>. Each readout \<open>g\<^sub>i\<close> adds, for every name of its gate that requires a gradient
  and whose position is \<open>j - 1\<close>, the term \<open>2 * Re g\<^sub>i\<close> times minus the coefficient of the
  name in the expression of the gate (reversible mode), or times the coefficient itself
  (noise mode).
\<close>

definition reversible_gradient :: "(string \<times> nat) list \<Rightarrow> (BasicGate \<times> complex) list \<Rightarrow> nat \<Rightarrow> complex" where
  "reversible_gradient p_map readouts j =
     (\<Sum>(g, gi)\<leftarrow>readouts.
        \<Sum>it\<leftarrow>filter (\<lambda>it. 1 + the (map_of p_map it) = j) (GetRequiresGradParameters (params g)).
          of_real (2 * Re gi * - the (map_of (data (params g)) it)))"

definition noise_gradient :: "(string \<times> nat) list \<Rightarrow> (BasicGate \<times> complex) list \<Rightarrow> nat \<Rightarrow> complex" where
  "noise_gradient p_map readouts j =
     (\<Sum>(g, gi)\<leftarrow>readouts.
        \<Sum>it\<leftarrow>filter (\<lambda>it. 1 + the (map_of p_map it) = j) (GetRequiresGradParameters (params g)).
          of_real (2 * Re gi * the (map_of (data (params g)) it)))"


section \<open>Pointwise scalings of a buffer\<close>

text \<open>
  Every write of the Z-like kernels multiplies one entry of the buffer by a constant. A
  buffer transformation \<open>F\<close> is a scaling with multipliers \<open>m\<close> when it keeps the length and
  multiplies entry \<open>i\<close> by \<open>m i\<close>; two scalings undo one another when their multipliers are
  inverse at every index.
\<close>

definition scales :: "(qs_data_p_t \<Rightarrow> qs_data_p_t) \<Rightarrow> (nat \<Rightarrow> complex) \<Rightarrow> bool" where
  "scales F m \<longleftrightarrow> (\<forall>qs. length (F qs) = length qs \<and> (\<forall>i<length qs. F qs ! i = qs ! i * m i))"

definition inv_pair :: "(qs_data_p_t \<Rightarrow> qs_data_p_t) \<Rightarrow> (qs_data_p_t \<Rightarrow> qs_data_p_t) \<Rightarrow> bool" where
  "inv_pair F G \<longleftrightarrow> (\<exists>m m'. scales F m \<and> scales G m' \<and> (\<forall>j. m j * m' j = 1))"

(*RT_GATE_DEFS*)
section \<open>Runtime gate builder (\<open>mindquantum::sim::rt::Gate\<close>)\<close>

text \<open>
  The gate identifiers the builder switches on. \<open>GNull\<close> is \<open>GateID::null\<close>, the value of
  a default-constructed or reset builder.
\<close>

datatype GateID =
  GNull | GX | GY | GZ | GH | GS | GT | GSdag | GTdag | GSWAP | GISWAP
  | GRX | GRY | GRZ | GPS | GRxx | GRyy | GRzz

record Gate =
  gate :: GateID
  objs :: "nat list"
  ctrls :: "nat list"
  ang :: real

text \<open>
  The three \<open>std::runtime_error\<close>s of \<open>AddObj\<close> and \<open>AddCtrl\<close>. Each message embeds
  \<open>std::to_string\<close> of the offending qubit; the constructor argument is that qubit.
\<close>

datatype rt_error =
  ObjAlreadyAdded nat
  | CtrlInObjQubits nat
  | CtrlAlreadyAdded nat

definition Reset_gate :: "Gate \<Rightarrow> Gate" where
  "Reset_gate g = g\<lparr>gate := GNull, objs := [], ctrls := []\<rparr>"

definition Valid :: "Gate \<Rightarrow> bool" where
  "Valid g = (gate g \<noteq> GNull)"

definition AddObj :: "nat \<Rightarrow> Gate \<Rightarrow> rt_error + Gate" where
  "AddObj obj g =
     (if obj \<in> set (objs g) then Inl (ObjAlreadyAdded obj)
      else Inr (g\<lparr>objs := objs g @ [obj]\<rparr>))"

definition AddCtrl :: "nat \<Rightarrow> Gate \<Rightarrow> rt_error + Gate" where
  "AddCtrl ctrl g =
     (if ctrl \<in> set (objs g) then Inl (CtrlInObjQubits ctrl)
      else if ctrl \<in> set (ctrls g) then Inl (CtrlAlreadyAdded ctrl)
      else Inr (g\<lparr>ctrls := ctrls g @ [ctrl]\<rparr>))"

section \<open>Properties of the Z-like kernels\<close>

subsection \<open>A gate followed by its adjoint\<close>

lemma scales_id: "scales (\<lambda>rho. rho) (\<lambda>_. 1)"
  by (simp add: scales_def)

lemma scales_mul_at: "scales (mul_at i c) (\<lambda>j. if j = i then c else 1)"
  by (simp add: scales_def mul_at_def nth_list_update)

lemma scales_comp:
  assumes "scales F m" and "scales G m'"
  shows "scales (\<lambda>rho. G (F rho)) (\<lambda>j. m j * m' j)"
  using assms by (simp add: scales_def mult.assoc)

lemma inv_pair_cancel:
  assumes "inv_pair F G"
  shows "G (F rho) = rho"
proof -
  from assms obtain m m' where F: "scales F m" and G: "scales G m'" and one: "\<And>j. m j * m' j = 1"
    by (auto simp: inv_pair_def)
  have len: "length (G (F rho)) = length rho"
    using F G by (simp add: scales_def)
  moreover have "G (F rho) ! i = rho ! i" if "i < length rho" for i
  proof -
    have "G (F rho) ! i = rho ! i * (m i * m' i)"
      using F G that by (simp add: scales_def mult.assoc)
    then show ?thesis by (simp add: one)
  qed
  ultimately show ?thesis by (simp add: nth_equalityI)
qed

lemma inv_pair_id: "inv_pair (\<lambda>rho. rho) (\<lambda>rho. rho)"
  unfolding inv_pair_def using scales_id by (intro exI[of _ "\<lambda>_. 1"]) simp

lemma inv_pair_mul_at:
  assumes "c * c' = 1"
  shows "inv_pair (mul_at i c) (mul_at i c')"
  unfolding inv_pair_def
  by (rule exI[of _ "\<lambda>j. if j = i then c else 1"], rule exI[of _ "\<lambda>j. if j = i then c' else 1"])
     (simp add: scales_mul_at assms)

lemma inv_pair_comp:
  assumes "inv_pair F G" and "inv_pair F' G'"
  shows "inv_pair (\<lambda>rho. F' (F rho)) (\<lambda>rho. G' (G rho))"
proof -
  from assms(1) obtain m n where 1: "scales F m" "scales G n" "\<And>j. m j * n j = 1"
    by (auto simp: inv_pair_def)
  from assms(2) obtain m' n' where 2: "scales F' m'" "scales G' n'" "\<And>j. m' j * n' j = 1"
    by (auto simp: inv_pair_def)
  have "(m j * m' j) * (n j * n' j) = 1" for j
  proof -
    have "(m j * m' j) * (n j * n' j) = (m j * n j) * (m' j * n' j)"
      by (simp add: mult_ac)
    then show ?thesis by (simp add: 1 2)
  qed
  with scales_comp[OF 1(1) 2(1)] scales_comp[OF 1(2) 2(2)] show ?thesis
    unfolding inv_pair_def by blast
qed

lemma inv_pair_fold:
  assumes "\<And>x. x \<in> set xs \<Longrightarrow> inv_pair (f x) (g x)"
  shows "inv_pair (fold f xs) (fold g xs)"
  using assms
proof (induction xs)
  case Nil
  show ?case using inv_pair_id by (simp add: id_def)
next
  case (Cons x xs)
  have "inv_pair (\<lambda>rho. fold f xs (f x rho)) (\<lambda>rho. fold g xs (g x rho))"
    by (rule inv_pair_comp) (simp_all add: Cons)
  then show ?case by (simp add: comp_def)
qed

lemma inv_pair_if:
  assumes "b \<Longrightarrow> inv_pair F G" and "\<not> b \<Longrightarrow> inv_pair F' G'"
  shows "inv_pair (\<lambda>rho. if b then F rho else F' rho) (\<lambda>rho. if b then G rho else G' rho)"
  using assms by (cases b) simp_all

lemma inv_pair_SelfMultiply:
  assumes "c * c' = 1"
  shows "inv_pair (\<lambda>rho. SelfMultiply rho r s c) (\<lambda>rho. SelfMultiply rho r s c')"
proof -
  have "cnj c * cnj c' = cnj (c * c')" by simp
  then have "cnj c * cnj c' = 1"
    by (simp only: assms complex_cnj_one)
  then show ?thesis
    using assms by (cases "s \<le> r") (simp_all add: SelfMultiply_def inv_pair_mul_at)
qed

lemma std_norm_eq: "std_norm v = v * cnj v"
  by (simp add: std_norm_def complex_mult_cnj)

lemma unit_facts:
  assumes "v * cnj v = 1"
  shows "std_norm v * std_norm (cnj v) = 1" and "cnj v * cnj (cnj v) = 1"
  using assms by (simp_all add: std_norm_eq mult.commute)

lemma inv_pair_mul_at_after:
  assumes "inv_pair F G" and "c * c' = 1"
  shows "inv_pair (\<lambda>rho. mul_at i c (F rho)) (\<lambda>rho. mul_at i c' (G rho))"
  using inv_pair_comp[OF assms(1) inv_pair_mul_at[OF assms(2)]] .

lemma inv_pair_SelfMultiply_after:
  assumes "inv_pair F G" and "c * c' = 1"
  shows "inv_pair (\<lambda>rho. SelfMultiply (F rho) r s c) (\<lambda>rho. SelfMultiply (G rho) r s c')"
  using inv_pair_comp[OF assms(1) inv_pair_SelfMultiply[OF assms(2)]] .

lemma inv_pair_ZLike_block:
  assumes "v * cnj v = 1"
  shows "inv_pair (ZLike_block msk v k l) (ZLike_block msk (cnj v) k l)"
  unfolding ZLike_block_def [abs_def] Let_def
  by (intro inv_pair_mul_at_after inv_pair_SelfMultiply_after inv_pair_id unit_facts[OF assms] assms)

lemma inv_pair_ZLike_ctrl_block:
  assumes "v * cnj v = 1"
  shows "inv_pair (ZLike_ctrl_block msk v k l) (ZLike_ctrl_block msk (cnj v) k l)"
  unfolding ZLike_ctrl_block_def [abs_def] Let_def
  by (intro inv_pair_if inv_pair_mul_at_after inv_pair_SelfMultiply_after inv_pair_id
        unit_facts[OF assms] assms)

lemma ApplyZLike_undo:
  assumes "v * cnj v = 1" and "os \<noteq> []"
  shows "\<exists>rho'. ApplyZLike rho os cs v d = Some rho'
           \<and> ApplyZLike rho' os cs (cnj v) d = Some rho"
proof -
  from assms(2) obtain msk where msk: "mk_SingleQubitGateMask os cs = Some msk"
    by (cases os) (simp_all add: mk_SingleQubitGateMask_def)
  have 1: "inv_pair (fold (\<lambda>k. fold (ZLike_block msk v k) (index_range (Suc (unat k)))) ks)
             (fold (\<lambda>k. fold (ZLike_block msk (cnj v) k) (index_range (Suc (unat k)))) ks)" for ks
    by (intro inv_pair_fold inv_pair_ZLike_block assms)
  have 2: "inv_pair (fold (\<lambda>k. fold (ZLike_ctrl_block msk v k) (index_range (unat k))) ks)
             (fold (\<lambda>k. fold (ZLike_ctrl_block msk (cnj v) k) (index_range (unat k))) ks)" for ks
    by (intro inv_pair_fold inv_pair_ZLike_ctrl_block assms)
  show ?thesis
    by (simp add: ApplyZLike_def msk inv_pair_cancel[OF 1] inv_pair_cancel[OF 2])
qed

lemma cnj_S: "cnj (Complex 0 1) = Complex 0 (- 1)"
  by (simp add: complex_eq_iff)

lemma cnj_T: "cnj (Complex 1 1 / of_real (sqrt 2)) = Complex 1 (- 1) / of_real (sqrt 2)"
  by (simp add: complex_eq_iff)

lemma unit_S: "Complex 0 1 * cnj (Complex 0 1) = 1"
  by (simp add: complex_eq_iff)

lemma unit_T: "(Complex 1 1 / of_real (sqrt 2)) * cnj (Complex 1 1 / of_real (sqrt 2)) = 1"
  by (simp add: complex_eq_iff Re_divide Im_divide power2_eq_square)

text \<open>
  C6. For every buffer, every non-empty list of object qubits and every list of control
  qubits, \<open>ApplySGate\<close> followed by \<open>ApplySdag\<close> on the same qubits, and \<open>ApplyT\<close> followed by
  \<open>ApplyTdag\<close>, return the buffer to its original value. Complex numbers are exact here, so
  the buffers are equal, which is within every \<open>\<epsilon>\<close>.
\<close>

theorem S_T_round_trip:
  assumes "os \<noteq> []"
  shows "(\<exists>rho'. ApplySGate rho os cs d = Some rho' \<and> ApplySdag rho' os cs d = Some rho)
       \<and> (\<exists>rho'. ApplyT rho os cs d = Some rho' \<and> ApplyTdag rho' os cs d = Some rho)"
  unfolding ApplySGate_def ApplySdag_def ApplyT_def ApplyTdag_def
  using ApplyZLike_undo[OF unit_S assms, of rho cs d] ApplyZLike_undo[OF unit_T assms, of rho cs d]
  by (simp only: cnj_S cnj_T) 

theorem S_T_round_trip_witness:
  "[0::nat] \<noteq> [] \<and>
   (\<exists>rho'. ApplySGate [1, 2, 3] [0] [] 2 = Some rho' \<and> ApplySdag rho' [0] [] 2 = Some [1, 2, 3]) \<and>
   (\<exists>rho'. ApplyT [1, 2, 3] [0] [] 2 = Some rho' \<and> ApplyTdag rho' [0] [] 2 = Some [1, 2, 3])"
  using S_T_round_trip[of "[0]" "[1, 2, 3]" "[]" 2] by simp


subsection \<open>Diagonal blocks\<close>

text \<open>
  C1. A controlled Z-like gate is claimed to transform the buffer as \<open>G \<rho> G\<close>-adjoint, every
  diagonal block being updated exactly once. In \<open>ApplyZLike\<close> the update of the diagonal
  block of row base \<open>k\<close> stands inside the column loop over \<open>l < k\<close>, so it runs \<open>k\<close> times.
  On three qubits, Z on qubit 0 controlled by qubit 2: the row base \<open>k = 2\<close> (rows 4 and 5)
  satisfies the control, its diagonal block is updated twice, and the stored entry
  \<open>(5, 4)\<close>, at offset 19, is multiplied by \<open>(-1)\<^sup>2 = 1\<close> where \<open>G \<rho> G\<close>-adjoint has it
  multiplied by \<open>-1\<close>. The buffer holds \<open>1, 2, ..., 36\<close>.
\<close>

theorem ApplyZ_controlled_diagonal_block_repeated:
  "ApplyZ (map of_nat [1..<37]) [0] [2] 8 =
     Some (map of_int
       [1, 2, 3, 4, 5, 6, 7, 8, 9, 10, 11, 12, 13, 14, 15, - 16, - 17, - 18, - 19, 20, 21,
        22, 23, 24, 25, 26, - 27, 28, - 29, - 30, - 31, - 32, - 33, 34, - 35, 36])
   \<and> ZLike_spec (map of_nat [1..<37]) [0] [2] (- 1) 8 =
     Some (map of_int
       [1, 2, 3, 4, 5, 6, 7, 8, 9, 10, 11, 12, 13, 14, 15, - 16, - 17, - 18, - 19, - 20, 21,
        22, 23, 24, 25, 26, - 27, 28, - 29, - 30, - 31, - 32, - 33, 34, - 35, 36])"
proof -
  note ev = ApplyZLike_def mk_SingleQubitGateMask_def GetControlMask_def index_range_def
    ZLike_ctrl_block_def base_index_def SelfMultiply_def mul_at_def IdxMap_def std_norm_def
    Let_def upt_rec
  have code: "ApplyZ (map of_nat [1..<37]) [0] [2] 8 =
     Some (map of_int
       [1, 2, 3, 4, 5, 6, 7, 8, 9, 10, 11, 12, 13, 14, 15, - 16, - 17, - 18, - 19, 20, 21,
        22, 23, 24, 25, 26, - 27, 28, - 29, - 30, - 31, - 32, - 33, 34, - 35, 36])"
    by (simp add: ApplyZ_def ev)
  have spec: "ZLike_spec (map of_nat [1..<37]) [0] [2] (- 1) 8 =
     Some (map of_int
       [1, 2, 3, 4, 5, 6, 7, 8, 9, 10, 11, 12, 13, 14, 15, - 16, - 17, - 18, - 19, - 20, 21,
        22, 23, 24, 25, 26, - 27, 28, - 29, - 30, - 31, - 32, - 33, 34, - 35, 36])"
    by (simp add: ZLike_spec_def ZLike_diag_def ev)
  from code spec show ?thesis by (rule conjI)
qed

text \<open>
  C5. Without controls every block with \<open>l \<le> k\<close> is claimed to have its stored entry
  \<open>(r1, c0)\<close> multiplied by \<open>v\<close>. On the diagonal block, \<open>l = k\<close>, the entry \<open>(r0, c1)\<close> lies
  above the diagonal and is held by the stored entry \<open>(r1, c0)\<close>: the kernel multiplies that
  entry by \<open>v\<close> (line 50) and again by \<open>v\<close> through \<open>SelfMultiply\<close> (line 51). On one qubit,
  Z on qubit 0 of the state with all three stored entries \<open>1/2\<close>: the stored entry \<open>(1, 0)\<close>
  keeps the value \<open>1/2\<close> where multiplication by \<open>v = -1\<close> gives \<open>-1/2\<close>.
\<close>

theorem ApplyZ_diagonal_block_twice:
  "ApplyZ [1/2, 1/2, 1/2] [0] [] 2 = Some [1/2, 1/2, 1/2]
   \<and> ZLike_spec [1/2, 1/2, 1/2] [0] [] (- 1) 2 = Some [1/2, - 1/2, 1/2]"
proof -
  note ev = ApplyZLike_def mk_SingleQubitGateMask_def GetControlMask_def index_range_def
    ZLike_block_def base_index_def SelfMultiply_def mul_at_def IdxMap_def std_norm_def
    Let_def upt_rec
  have code: "ApplyZ [1/2, 1/2, 1/2] [0] [] 2 = Some [1/2, 1/2, 1/2]"
    by (simp add: ApplyZ_def ev)
  have spec: "ZLike_spec [1/2, 1/2, 1/2] [0] [] (- 1) 2 = Some [1/2, - 1/2, 1/2]"
    by (simp add: ZLike_spec_def ZLike_diag_def ev)
  from code spec show ?thesis by (rule conjI)
qed

section \<open>Properties of the gate dispatch\<close>

lemma run_zlike_ret: "run_zlike st h r = Inr (x, st', h') \<Longrightarrow> x = 2"
  by (auto simp: run_zlike_def split: option.splits)

lemma ApplyMeasure_ret:
  "ApplyMeasure pol g sh = Inr (x, st', h') \<Longrightarrow> is_measure g \<and> (x = 0 \<or> x = 1)"
  by (auto simp: ApplyMeasure_def Let_def split: prod.splits if_splits list.splits)

lemma ApplyGate_ret:
  assumes "ApplyGate pol g pr diff (st, h) = Inr (x, st', h')"
  shows "x = 2 \<or> is_measure g \<and> (x = 0 \<or> x = 1)"
  using assms
  unfolding ApplyGate_def
  by (auto split: if_splits sum.splits list.splits prod.splits dest: run_zlike_ret ApplyMeasure_ret)

lemma ApplyGate_I: "name g = gI \<Longrightarrow> ApplyGate pol g pr diff (st, h) = Inr (2, st, h)"
  by (simp add: ApplyGate_def)

text \<open>
  C10. A gate named \<open>I\<close> makes \<open>ApplyGate\<close> return 2 and leaves the state and the whole
  memory, hence the density matrix, as they are. Whenever \<open>ApplyGate\<close> returns (no dispatch
  error), the value is 2 for a gate that is not a measurement, and a value other than 2, which
  is then 0 or 1, comes from a measurement gate only.
\<close>

theorem ApplyGate_sentinel:
  "(name g = gI \<longrightarrow> ApplyGate pol g pr diff (st, h) = Inr (2, st, h))
   \<and> (\<forall>x st' h'. ApplyGate pol g pr diff (st, h) = Inr (x, st', h') \<longrightarrow>
         (\<not> is_measure g \<longrightarrow> x = 2) \<and> (x \<noteq> 2 \<longrightarrow> is_measure g \<and> (x = 0 \<or> x = 1)))"
proof (intro conjI allI impI)
  assume "name g = gI"
  then show "ApplyGate pol g pr diff (st, h) = Inr (2, st, h)" by (rule ApplyGate_I)
next
  fix x st' h'
  assume r: "ApplyGate pol g pr diff (st, h) = Inr (x, st', h')"
  { assume "\<not> is_measure g"
    with ApplyGate_ret[OF r] show "x = 2" by blast }
  { assume "x \<noteq> 2"
    with ApplyGate_ret[OF r] show "is_measure g" "x = 0 \<or> x = 1" by blast+ }
qed

lemma demo_X: "ApplyGate demo_policy (plain_gate ''X'' [0] False) pr diff (demo_state, [[1, 0, 0]])
   = Inr (2, demo_state, [[1, 0, 0]])"
  by (simp add: ApplyGate_def plain_gate_def gI_def gX_def demo_state_def demo_policy_def demo_gk_def)

theorem ApplyGate_sentinel_witness:
  "ApplyGate demo_policy (plain_gate ''I'' [0] False) \<lparr>data = [], no_grad_parameters = [], const_value = 0\<rparr>
       False (demo_state, [[1, 0, 0]]) = Inr (2, demo_state, [[1, 0, 0]])
   \<and> ApplyGate demo_policy (plain_gate ''X'' [0] False) \<lparr>data = [], no_grad_parameters = [], const_value = 0\<rparr>
       False (demo_state, [[1, 0, 0]]) = Inr (2, demo_state, [[1, 0, 0]])
   \<and> \<not> is_measure (plain_gate ''X'' [0] False)"
proof -
  have "name (plain_gate ''I'' [0] False) = gI"
    by (simp add: plain_gate_def gI_def)
  with ApplyGate_sentinel[of "plain_gate ''I'' [0] False" demo_policy
      "\<lparr>data = [], no_grad_parameters = [], const_value = 0\<rparr>" False demo_state "[[1, 0, 0]]"]
  have 1: "ApplyGate demo_policy (plain_gate ''I'' [0] False) \<lparr>data = [], no_grad_parameters = [], const_value = 0\<rparr>
       False (demo_state, [[1, 0, 0]]) = Inr (2, demo_state, [[1, 0, 0]])"
    by blast
  show ?thesis
    using 1 by (simp add: demo_X) (simp add: plain_gate_def)
qed

section \<open>Properties of the gradient engine\<close>

lemma grad_accumulate_reversible_entries:
  "grad_accumulate_reversible p_map prs gi its f = Inr f' \<Longrightarrow>
   length f' = length f \<and>
   (\<forall>j<length f. f' ! j = f ! j +
      (\<Sum>it\<leftarrow>filter (\<lambda>it. 1 + the (map_of p_map it) = j) its.
          of_real (2 * Re gi * - the (map_of (data prs) it))))"
proof (induction its arbitrary: f)
  case Nil
  then show ?case by simp
next
  case (Cons it its)
  from Cons.prems obtain idx coeff where
    idx: "map_of p_map it = Some idx" and coeff: "map_of (data prs) it = Some coeff"
    and rng: "1 + idx < length f"
    and rest: "grad_accumulate_reversible p_map prs gi its
                 (f[1 + idx := f ! (1 + idx) + of_real (2 * Re gi * - coeff)]) = Inr f'"
    by (auto split: option.splits if_splits)
  from Cons.IH[OF rest] show ?case
    by (auto simp: idx coeff nth_list_update)
qed

lemma grad_accumulate_noise_entries:
  "grad_accumulate_noise p_map prs gi its f = Inr f' \<Longrightarrow>
   length f' = length f \<and>
   (\<forall>j<length f. f' ! j = f ! j +
      (\<Sum>it\<leftarrow>filter (\<lambda>it. 1 + the (map_of p_map it) = j) its.
          of_real (2 * Re gi * the (map_of (data prs) it))))"
proof (induction its arbitrary: f)
  case Nil
  then show ?case by simp
next
  case (Cons it its)
  from Cons.prems obtain idx coeff where
    idx: "map_of p_map it = Some idx" and coeff: "map_of (data prs) it = Some coeff"
    and rng: "1 + idx < length f"
    and rest: "grad_accumulate_noise p_map prs gi its
                 (f[1 + idx := f ! (1 + idx) + of_real (2 * Re gi * coeff)]) = Inr f'"
    by (auto split: option.splits if_splits)
  from Cons.IH[OF rest] show ?case
    by (auto simp: idx coeff nth_list_update)
qed

lemma grad_accumulate_reversible_defined:
  "grad_accumulate_reversible p_map prs gi its f = Inr f' \<Longrightarrow> it \<in> set its \<Longrightarrow>
   \<exists>idx coeff. map_of p_map it = Some idx \<and> map_of (data prs) it = Some coeff \<and> 1 + idx < length f"
proof (induction its arbitrary: f)
  case Nil
  then show ?case by simp
next
  case (Cons a its)
  from Cons.prems(1) obtain idx coeff where
    idx: "map_of p_map a = Some idx" and coeff: "map_of (data prs) a = Some coeff"
    and rng: "1 + idx < length f"
    and rest: "grad_accumulate_reversible p_map prs gi its
                 (f[1 + idx := f ! (1 + idx) + of_real (2 * Re gi * - coeff)]) = Inr f'"
    by (auto split: option.splits if_splits)
  show ?case
  proof (cases "it = a")
    case True
    then show ?thesis using idx coeff rng by simp
  next
    case False
    with Cons.prems(2) have "it \<in> set its" by simp
    from Cons.IH[OF rest this] show ?thesis by simp
  qed
qed

lemma grad_accumulate_noise_defined:
  "grad_accumulate_noise p_map prs gi its f = Inr f' \<Longrightarrow> it \<in> set its \<Longrightarrow>
   \<exists>idx coeff. map_of p_map it = Some idx \<and> map_of (data prs) it = Some coeff \<and> 1 + idx < length f"
proof (induction its arbitrary: f)
  case Nil
  then show ?case by simp
next
  case (Cons a its)
  from Cons.prems(1) obtain idx coeff where
    idx: "map_of p_map a = Some idx" and coeff: "map_of (data prs) a = Some coeff"
    and rng: "1 + idx < length f"
    and rest: "grad_accumulate_noise p_map prs gi its
                 (f[1 + idx := f ! (1 + idx) + of_real (2 * Re gi * coeff)]) = Inr f'"
    by (auto split: option.splits if_splits)
  show ?case
  proof (cases "it = a")
    case True
    then show ?thesis using idx coeff rng by simp
  next
    case False
    with Cons.prems(2) have "it \<in> set its" by simp
    from Cons.IH[OF rest this] show ?thesis by simp
  qed
qed

lemma filter_single:
  assumes "distinct its" and "it \<in> set its" and "\<And>x. x \<in> set its \<Longrightarrow> P x \<longleftrightarrow> x = it"
  shows "filter P its = [it]"
  using assms
proof (induction its)
  case Nil
  then show ?case by simp
next
  case (Cons a its)
  show ?case
  proof (cases "a = it")
    case True
    with Cons.prems have "filter P its = []"
      by (auto simp: filter_empty_conv)
    with True Cons.prems(3)[of a] show ?thesis by simp
  next
    case False
    with Cons.prems have "filter P its = [it]"
      by (intro Cons.IH) auto
    with False Cons.prems(3)[of a] show ?thesis by simp
  qed
qed


lemma distinct_GetRequiresGradParameters:
  "distinct (map fst (data prs)) \<Longrightarrow> distinct (GetRequiresGradParameters prs)"
  by (simp add: GetRequiresGradParameters_def)

lemma accumulation_sign:
  assumes "distinct (map fst (data (params g)))"
    and "inj_on (map_of p_map) (set (GetRequiresGradParameters (params g)))"
    and "it \<in> set (GetRequiresGradParameters (params g))"
  shows "(\<forall>f'. grad_accumulate_reversible p_map (params g) gi (GetRequiresGradParameters (params g)) f = Inr f' \<longrightarrow>
            (\<exists>idx coeff. map_of p_map it = Some idx \<and> map_of (data (params g)) it = Some coeff
               \<and> f' ! (1 + idx) = f ! (1 + idx) + of_real (2 * Re gi * (- coeff))))
       \<and> (\<forall>f'. grad_accumulate_noise p_map (params g) gi (GetRequiresGradParameters (params g)) f = Inr f' \<longrightarrow>
            (\<exists>idx coeff. map_of p_map it = Some idx \<and> map_of (data (params g)) it = Some coeff
               \<and> f' ! (1 + idx) = f ! (1 + idx) + of_real (2 * Re gi * coeff)))"
proof (intro conjI allI impI)
  let ?its = "GetRequiresGradParameters (params g)"
  have d: "distinct ?its"
    using assms(1) by (rule distinct_GetRequiresGradParameters)
  fix f'
  assume run: "grad_accumulate_reversible p_map (params g) gi ?its f = Inr f'"
  from grad_accumulate_reversible_defined[OF run assms(3)] obtain idx coeff where
    idx: "map_of p_map it = Some idx" and coeff: "map_of (data (params g)) it = Some coeff"
    and rng: "1 + idx < length f"
    by blast
  have only: "(1 + the (map_of p_map x) = 1 + idx) \<longleftrightarrow> x = it" if "x \<in> set ?its" for x
  proof
    assume "1 + the (map_of p_map x) = 1 + idx"
    moreover from grad_accumulate_reversible_defined[OF run that] obtain k where "map_of p_map x = Some k"
      by blast
    ultimately have "map_of p_map x = map_of p_map it" by (simp add: idx)
    with assms(2,3) that show "x = it" by (simp add: inj_on_def)
  qed (simp add: idx)
  have "filter (\<lambda>x. 1 + the (map_of p_map x) = 1 + idx) ?its = [it]"
    using d assms(3) only by (rule filter_single)
  with grad_accumulate_reversible_entries[OF run] rng
  have "f' ! (1 + idx) = f ! (1 + idx) + of_real (2 * Re gi * (- coeff))"
    by (simp add: coeff)
  with idx coeff
  show "\<exists>idx coeff. map_of p_map it = Some idx \<and> map_of (data (params g)) it = Some coeff
          \<and> f' ! (1 + idx) = f ! (1 + idx) + of_real (2 * Re gi * (- coeff))"
    by blast
next
  let ?its = "GetRequiresGradParameters (params g)"
  have d: "distinct ?its"
    using assms(1) by (rule distinct_GetRequiresGradParameters)
  fix f'
  assume run: "grad_accumulate_noise p_map (params g) gi ?its f = Inr f'"
  from grad_accumulate_noise_defined[OF run assms(3)] obtain idx coeff where
    idx: "map_of p_map it = Some idx" and coeff: "map_of (data (params g)) it = Some coeff"
    and rng: "1 + idx < length f"
    by blast
  have only: "(1 + the (map_of p_map x) = 1 + idx) \<longleftrightarrow> x = it" if "x \<in> set ?its" for x
  proof
    assume "1 + the (map_of p_map x) = 1 + idx"
    moreover from grad_accumulate_noise_defined[OF run that] obtain k where "map_of p_map x = Some k"
      by blast
    ultimately have "map_of p_map x = map_of p_map it" by (simp add: idx)
    with assms(2,3) that show "x = it" by (simp add: inj_on_def)
  qed (simp add: idx)
  have "filter (\<lambda>x. 1 + the (map_of p_map x) = 1 + idx) ?its = [it]"
    using d assms(3) only by (rule filter_single)
  with grad_accumulate_noise_entries[OF run] rng
  have "f' ! (1 + idx) = f ! (1 + idx) + of_real (2 * Re gi * coeff)"
    by (simp add: coeff)
  with idx coeff
  show "\<exists>idx coeff. map_of p_map it = Some idx \<and> map_of (data (params g)) it = Some coeff
          \<and> f' ! (1 + idx) = f ! (1 + idx) + of_real (2 * Re gi * coeff)"
    by blast
qed

lemma demo_rot_its: "GetRequiresGradParameters (params demo_rot) = [''a'']"
  by (simp add: demo_rot_def plain_gate_def GetRequiresGradParameters_def)

subsection \<open>The sign of the accumulation in the two modes\<close>

lemma reversible_loop_sum:
  "reversible_loop pol pr p_map d gs (f, sq, sh, h) = Inr (f', h') \<Longrightarrow>
   length f' = length f \<and>
   (\<forall>j<length f. f' ! j = f ! j + reversible_gradient p_map (reversible_readouts pol pr d gs (sq, sh, h)) j)"
proof (induction gs arbitrary: f sq sh h)
  case Nil
  then show ?case by (simp add: reversible_gradient_def)
next
  case (Cons g gs)
  from Cons.prems obtain f1 x1 sh1 h1 x2 sq1 h2 where
    acc: "(if has_grad_params g then
              case ExpectDiffGate pol (h ! qs sq) (h ! qs sh) g d of
                Inl e \<Rightarrow> Inl e
              | Inr gi \<Rightarrow>
                  grad_accumulate_reversible p_map (params g) gi
                    (GetRequiresGradParameters (params g)) f
            else Inr f) = Inr f1"
    and a1: "ApplyGate pol g pr False (sh, h) = Inr (x1, sh1, h1)"
    and a2: "ApplyGate pol g pr False (sq, h1) = Inr (x2, sq1, h2)"
    and rest: "reversible_loop pol pr p_map d gs (f1, sq1, sh1, h2) = Inr (f', h')"
    by (auto split: sum.splits prod.splits)
  from Cons.IH[OF rest] have IH: "length f' = length f1"
    "\<And>j. j < length f1 \<Longrightarrow> f' ! j = f1 ! j + reversible_gradient p_map (reversible_readouts pol pr d gs (sq1, sh1, h2)) j"
    by simp_all
  show ?case
  proof (cases "has_grad_params g")
    case False
    with acc have "f1 = f" by simp
    with IH False a1 a2 show ?thesis by (simp add: reversible_gradient_def)
  next
    case True
    with acc obtain gi where gi: "ExpectDiffGate pol (h ! qs sq) (h ! qs sh) g d = Inr gi"
      and run: "grad_accumulate_reversible p_map (params g) gi (GetRequiresGradParameters (params g)) f = Inr f1"
      by (auto split: sum.splits)
    from grad_accumulate_reversible_entries[OF run] have st: "length f1 = length f"
      "\<And>j. j < length f \<Longrightarrow> f1 ! j = f ! j +
         (\<Sum>it\<leftarrow>filter (\<lambda>it. 1 + the (map_of p_map it) = j) (GetRequiresGradParameters (params g)).
            of_real (2 * Re gi * - the (map_of (data (params g)) it)))"
      by simp_all
    show ?thesis
      using IH st True gi a1 a2 by (simp add: reversible_gradient_def add.assoc)
  qed
qed


lemma noise_loop_sum:
  "noise_loop pol this pr p_map circ gs (n, f, sq, sh, h) = Inr (f', h') \<Longrightarrow>
   length f' = length f \<and>
   (\<forall>j<length f. f' ! j = f ! j + noise_gradient p_map (noise_readouts pol this pr circ gs (n, sq, sh, h)) j)"
proof (induction gs arbitrary: n f sq sh h)
  case Nil
  then show ?case by (simp add: noise_gradient_def)
next
  case (Cons hg gs)
  let ?n = "n - 1"
  let ?g = "circ ! unat ?n"
  from Cons.prems have inb: "\<not> length circ \<le> unat ?n"
    by (auto simp: Let_def split: if_splits)
  from Cons.prems inb obtain f1 sq1 h1 x sh1 h2 where
    acc: "(if has_grad_params ?g then
             case apply_gates pol pr (take (Suc (unat ?n)) circ) (sq, h) of
               Inl e \<Rightarrow> Inl e
             | Inr (sim_qs', h') \<Rightarrow>
                 (case ExpectDiffGate pol (h' ! qs sim_qs') (h' ! qs sh) ?g (dim' this) of
                    Inl e \<Rightarrow> Inl e
                  | Inr gi \<Rightarrow>
                      (case grad_accumulate_noise p_map (params ?g) gi
                              (GetRequiresGradParameters (params ?g)) f of
                         Inl e \<Rightarrow> Inl e
                       | Inr f_and_g' \<Rightarrow>
                           Inr (f_and_g', sim_qs', member_CopyQS sim_qs' (qs this) h')))
           else Inr (f, sq, h)) = Inr (f1, sq1, h1)"
    and a: "ApplyGate pol hg pr False (sh, h1) = Inr (x, sh1, h2)"
    and rest: "noise_loop pol this pr p_map circ gs (?n, f1, sq1, sh1, h2) = Inr (f', h')"
    by (auto simp: Let_def split: sum.splits prod.splits)
  from Cons.IH[OF rest] have IH: "length f' = length f1"
    "\<And>j. j < length f1 \<Longrightarrow> f' ! j = f1 ! j + noise_gradient p_map (noise_readouts pol this pr circ gs (?n, sq1, sh1, h2)) j"
    by simp_all
  show ?case
  proof (cases "has_grad_params ?g")
    case False
    with acc have "f1 = f" "sq1 = sq" "h1 = h" by simp_all
    with IH False a inb show ?thesis by (simp add: noise_gradient_def Let_def)
  next
    case True
    with acc obtain sq' h' gi where
      ag: "apply_gates pol pr (take (Suc (unat ?n)) circ) (sq, h) = Inr (sq', h')"
      and gi: "ExpectDiffGate pol (h' ! qs sq') (h' ! qs sh) ?g (dim' this) = Inr gi"
      and run: "grad_accumulate_noise p_map (params ?g) gi (GetRequiresGradParameters (params ?g)) f = Inr f1"
      and eq: "sq1 = sq'" "h1 = member_CopyQS sq' (qs this) h'"
      by (auto split: sum.splits prod.splits)
    from grad_accumulate_noise_entries[OF run] have st: "length f1 = length f"
      "\<And>j. j < length f \<Longrightarrow> f1 ! j = f ! j +
         (\<Sum>it\<leftarrow>filter (\<lambda>it. 1 + the (map_of p_map it) = j) (GetRequiresGradParameters (params ?g)).
            of_real (2 * Re gi * the (map_of (data (params ?g)) it)))"
      by simp_all
    show ?thesis
      using IH st True gi ag a inb eq by (simp add: noise_gradient_def Let_def add.assoc)
  qed
qed

lemma sum_list_pairs_zero: "(\<Sum>(g, gi)\<leftarrow>rs. (0::complex)) = 0"
  by (induction rs) auto

lemma reversible_gradient_0: "reversible_gradient p_map rs 0 = 0"
  by (simp add: reversible_gradient_def sum_list_pairs_zero)

lemma noise_gradient_0: "noise_gradient p_map rs 0 = 0"
  by (simp add: noise_gradient_def sum_list_pairs_zero)


lemma reversible_OneOne_gradient:
  assumes "GetExpectationWithReversibleGradOneOne pol ham circ herm_circ enc_data ans_data
             enc_name ans_name (this, h) = Inr (f_and_g, h')"
  shows "\<exists>enc0 rest pr0 pr res0 sim_qs h1.
           enc_data = enc0 # rest
         \<and> SetItems (prm pol) enc_name enc0 \<lparr>data = [], no_grad_parameters = [], const_value = 0\<rparr> = Inr pr0
         \<and> SetItems (prm pol) ans_name ans_data pr0 = Inr pr
         \<and> ApplyCircuit pol circ pr (copy_state pol this h) = Inr (res0, sim_qs, h1)
         \<and> length f_and_g = 1 + length (build_p_map enc_name ans_name)
         \<and> f_and_g ! 0 = GetExpectation (hk pol) (h1 ! qs sim_qs) ham (dim' this)
         \<and> (\<forall>j. 1 \<le> j \<and> j < length f_and_g \<longrightarrow>
               f_and_g ! j =
                 reversible_gradient (build_p_map enc_name ans_name)
                   (reversible_readouts pol pr (dim' this) herm_circ
                      (sim_qs, adopt_state pol (length h1) (n_qubits this) (seed this),
                       h1 @ [HamiltonianMatrix (hk pol) ham (dim' this)])) j)"
proof -
  let ?pm = "build_p_map enc_name ans_name"
  from assms obtain enc0 rest pr0 pr res0 sim_qs h1 where
    e: "enc_data = enc0 # rest"
    and s1: "SetItems (prm pol) enc_name enc0 \<lparr>data = [], no_grad_parameters = [], const_value = 0\<rparr> = Inr pr0"
    and s2: "SetItems (prm pol) ans_name ans_data pr0 = Inr pr"
    and c: "ApplyCircuit pol circ pr (copy_state pol this h) = Inr (res0, sim_qs, h1)"
    and loop: "reversible_loop pol pr ?pm (dim' this) herm_circ
                 ((replicate (1 + length ?pm) 0)[0 := GetExpectation (hk pol) (h1 ! qs sim_qs) ham (dim' this)],
                  sim_qs, adopt_state pol (length h1) (n_qubits this) (seed this),
                  h1 @ [HamiltonianMatrix (hk pol) ham (dim' this)]) = Inr (f_and_g, h')"
    by (auto simp: GetExpectationWithReversibleGradOneOne_def Let_def
             split: list.splits sum.splits prod.splits)
  let ?f0 = "(replicate (1 + length ?pm) 0)[0 := GetExpectation (hk pol) (h1 ! qs sim_qs) ham (dim' this)]"
  let ?rs = "reversible_readouts pol pr (dim' this) herm_circ
                      (sim_qs, adopt_state pol (length h1) (n_qubits this) (seed this),
                       h1 @ [HamiltonianMatrix (hk pol) ham (dim' this)])"
  from reversible_loop_sum[OF loop] have len: "length f_and_g = length ?f0"
    and ent: "\<And>j. j < length ?f0 \<Longrightarrow> f_and_g ! j = ?f0 ! j + reversible_gradient ?pm ?rs j"
    by simp_all
  have l: "length f_and_g = 1 + length ?pm" using len by simp
  have z: "f_and_g ! 0 = GetExpectation (hk pol) (h1 ! qs sim_qs) ham (dim' this)"
    using ent[of 0] by (simp add: reversible_gradient_0)
  have g: "f_and_g ! j = reversible_gradient ?pm ?rs j" if "1 \<le> j" "j < length f_and_g" for j
    using ent[of j] that l by (simp add: nth_list_update)
  from e s1 s2 c l z g show ?thesis by blast
qed

lemma noise_OneOne_gradient:
  assumes "GetExpectationWithNoiseGradOneOne pol ham circ herm_circ pr p_map (this, h) = Inr (f_and_g, h')"
  shows "\<exists>res0 sim_qs h1.
           ApplyCircuit pol circ pr (copy_state pol this h) = Inr (res0, sim_qs, h1)
         \<and> length f_and_g = 1 + length p_map
         \<and> f_and_g ! 0 = GetExpectation (hk pol) (h1 ! qs sim_qs) ham (dim' this)
         \<and> (\<forall>j. 1 \<le> j \<and> j < length f_and_g \<longrightarrow>
               f_and_g ! j =
                 noise_gradient p_map
                   (noise_readouts pol this pr circ herm_circ
                      (of_nat (length circ), sim_qs,
                       adopt_state pol (length h1) (n_qubits this) (seed this),
                       member_CopyQS sim_qs (qs this) h1 @ [HamiltonianMatrix (hk pol) ham (dim' this)])) j)"
proof -
  from assms obtain res0 sim_qs h1 where
    c: "ApplyCircuit pol circ pr (copy_state pol this h) = Inr (res0, sim_qs, h1)"
    and loop: "noise_loop pol this pr p_map circ herm_circ
                 (of_nat (length circ),
                  (replicate (1 + length p_map) 0)[0 := GetExpectation (hk pol) (h1 ! qs sim_qs) ham (dim' this)],
                  sim_qs, adopt_state pol (length (member_CopyQS sim_qs (qs this) h1)) (n_qubits this) (seed this),
                  member_CopyQS sim_qs (qs this) h1 @ [HamiltonianMatrix (hk pol) ham (dim' this)]) = Inr (f_and_g, h')"
    by (auto simp: GetExpectationWithNoiseGradOneOne_def Let_def split: sum.splits prod.splits)
  have lm: "length (member_CopyQS sim_qs (qs this) h1) = length h1"
    by (simp add: member_CopyQS_def)
  let ?f0 = "(replicate (1 + length p_map) 0)[0 := GetExpectation (hk pol) (h1 ! qs sim_qs) ham (dim' this)]"
  let ?rs = "noise_readouts pol this pr circ herm_circ
                      (of_nat (length circ), sim_qs,
                       adopt_state pol (length h1) (n_qubits this) (seed this),
                       member_CopyQS sim_qs (qs this) h1 @ [HamiltonianMatrix (hk pol) ham (dim' this)])"
  from noise_loop_sum[OF loop] have len: "length f_and_g = length ?f0"
    and ent: "\<And>j. j < length ?f0 \<Longrightarrow> f_and_g ! j = ?f0 ! j + noise_gradient p_map ?rs j"
    by (simp_all add: lm)
  have l: "length f_and_g = 1 + length p_map" using len by simp
  have z: "f_and_g ! 0 = GetExpectation (hk pol) (h1 ! qs sim_qs) ham (dim' this)"
    using ent[of 0] by (simp add: noise_gradient_0)
  have g: "f_and_g ! j = noise_gradient p_map ?rs j" if "1 \<le> j" "j < length f_and_g" for j
    using ent[of j] that l by (simp add: nth_list_update)
  from c l z g show ?thesis by blast
qed


text \<open>
  C4. Whenever \<open>GetExpectationWithReversibleGradOneOne\<close> returns, entry 0 of its result is the
  expectation value and every gradient entry \<open>j \<ge> 1\<close> is the sum, over the derivative
  readouts \<open>g\<^sub>i\<close> of the loop over the adjoint circuit and the names of each gate that
  require a gradient and have position \<open>j - 1\<close>, of \<open>2 * Re g\<^sub>i\<close> times minus the coefficient
  of the name in the expression of the gate. Whenever \<open>GetExpectationWithNoiseGradOneOne\<close>
  returns, every gradient entry is the same sum over the readouts of the noise loop with the
  coefficient itself, the plus sign.
\<close>

theorem gradient_sign_by_mode:
  "(\<forall>f_and_g h'.
      GetExpectationWithReversibleGradOneOne pol ham circ herm_circ enc_data ans_data
        enc_name ans_name (this, h) = Inr (f_and_g, h') \<longrightarrow>
      (\<exists>enc0 rest pr0 pr res0 sim_qs h1.
           enc_data = enc0 # rest
         \<and> SetItems (prm pol) enc_name enc0 \<lparr>data = [], no_grad_parameters = [], const_value = 0\<rparr> = Inr pr0
         \<and> SetItems (prm pol) ans_name ans_data pr0 = Inr pr
         \<and> ApplyCircuit pol circ pr (copy_state pol this h) = Inr (res0, sim_qs, h1)
         \<and> length f_and_g = 1 + length (build_p_map enc_name ans_name)
         \<and> f_and_g ! 0 = GetExpectation (hk pol) (h1 ! qs sim_qs) ham (dim' this)
         \<and> (\<forall>j. 1 \<le> j \<and> j < length f_and_g \<longrightarrow>
               f_and_g ! j =
                 reversible_gradient (build_p_map enc_name ans_name)
                   (reversible_readouts pol pr (dim' this) herm_circ
                      (sim_qs, adopt_state pol (length h1) (n_qubits this) (seed this),
                       h1 @ [HamiltonianMatrix (hk pol) ham (dim' this)])) j)))
   \<and> (\<forall>f_and_g h'.
      GetExpectationWithNoiseGradOneOne pol ham circ herm_circ pr' p_map (this, h) = Inr (f_and_g, h') \<longrightarrow>
      (\<exists>res0 sim_qs h1.
           ApplyCircuit pol circ pr' (copy_state pol this h) = Inr (res0, sim_qs, h1)
         \<and> length f_and_g = 1 + length p_map
         \<and> f_and_g ! 0 = GetExpectation (hk pol) (h1 ! qs sim_qs) ham (dim' this)
         \<and> (\<forall>j. 1 \<le> j \<and> j < length f_and_g \<longrightarrow>
               f_and_g ! j =
                 noise_gradient p_map
                   (noise_readouts pol this pr' circ herm_circ
                      (of_nat (length circ), sim_qs,
                       adopt_state pol (length h1) (n_qubits this) (seed this),
                       member_CopyQS sim_qs (qs this) h1 @ [HamiltonianMatrix (hk pol) ham (dim' this)])) j)))"
proof (intro conjI allI impI)
  fix f_and_g h'
  assume "GetExpectationWithReversibleGradOneOne pol ham circ herm_circ enc_data ans_data
        enc_name ans_name (this, h) = Inr (f_and_g, h')"
  then show "\<exists>enc0 rest pr0 pr res0 sim_qs h1.
           enc_data = enc0 # rest
         \<and> SetItems (prm pol) enc_name enc0 \<lparr>data = [], no_grad_parameters = [], const_value = 0\<rparr> = Inr pr0
         \<and> SetItems (prm pol) ans_name ans_data pr0 = Inr pr
         \<and> ApplyCircuit pol circ pr (copy_state pol this h) = Inr (res0, sim_qs, h1)
         \<and> length f_and_g = 1 + length (build_p_map enc_name ans_name)
         \<and> f_and_g ! 0 = GetExpectation (hk pol) (h1 ! qs sim_qs) ham (dim' this)
         \<and> (\<forall>j. 1 \<le> j \<and> j < length f_and_g \<longrightarrow>
               f_and_g ! j =
                 reversible_gradient (build_p_map enc_name ans_name)
                   (reversible_readouts pol pr (dim' this) herm_circ
                      (sim_qs, adopt_state pol (length h1) (n_qubits this) (seed this),
                       h1 @ [HamiltonianMatrix (hk pol) ham (dim' this)])) j)"
    by (rule reversible_OneOne_gradient)
next
  fix f_and_g h'
  assume "GetExpectationWithNoiseGradOneOne pol ham circ herm_circ pr' p_map (this, h) = Inr (f_and_g, h')"
  then show "\<exists>res0 sim_qs h1.
           ApplyCircuit pol circ pr' (copy_state pol this h) = Inr (res0, sim_qs, h1)
         \<and> length f_and_g = 1 + length p_map
         \<and> f_and_g ! 0 = GetExpectation (hk pol) (h1 ! qs sim_qs) ham (dim' this)
         \<and> (\<forall>j. 1 \<le> j \<and> j < length f_and_g \<longrightarrow>
               f_and_g ! j =
                 noise_gradient p_map
                   (noise_readouts pol this pr' circ herm_circ
                      (of_nat (length circ), sim_qs,
                       adopt_state pol (length h1) (n_qubits this) (seed this),
                       member_CopyQS sim_qs (qs this) h1 @ [HamiltonianMatrix (hk pol) ham (dim' this)])) j)"
    by (rule noise_OneOne_gradient)
qed

lemma demo_rot_apply:
  "ApplyGate demo_policy demo_rot pr diff (st, hp) = Inr (2, st, hp[qs st := hp ! qs st])"
  by (simp add: ApplyGate_def demo_rot_def plain_gate_def resolve_val_def demo_policy_def
        demo_prm_def demo_gk_def gI_def gX_def gCNOT_def gY_def gZ_def gH_def gS_def gT_def
        gSWAP_def gISWAP_def gRX_def)

lemma demo_rot_diff: "ExpectDiffGate demo_policy b m demo_rot d = Inr (Complex 2 7)"
  by (simp add: ExpectDiffGate_def demo_rot_def plain_gate_def gRX_def demo_policy_def demo_hk_def)

lemma demo_rot_grad: "has_grad_params demo_rot"
  by (simp add: has_grad_params_def demo_rot_def plain_gate_def)

lemma demo_p_map: "build_p_map [''a''] [''b''] = [(''a'', 0), (''b'', 1)]"
  by (simp add: build_p_map_def)

lemma replicate3: "replicate 3 x = [x, x, x]"
  by (simp add: numeral_3_eq_3)

lemma CopyQS_demo: "CopyQS [1, 0, 0] [1, 0, 0] 2 = [1, 0, 0]"
  by (simp add: CopyQS_def packed_size_def upt_rec)

lemma demo_rot_not_measure: "\<not> is_measure demo_rot"
  by (simp add: demo_rot_def plain_gate_def)

lemma demo_acc_rev:
  "grad_accumulate_reversible [(''a'', 0), (''b'', Suc 0)] (params demo_rot) (Complex 2 7)
      (GetRequiresGradParameters (params demo_rot)) [0, 0, 0] = Inr [0, - 12, 0]"
  by (simp add: demo_rot_def plain_gate_def GetRequiresGradParameters_def)

lemma demo_acc_noise:
  "grad_accumulate_noise [(''a'', 0), (''b'', Suc 0)] (params demo_rot) (Complex 2 7)
      (GetRequiresGradParameters (params demo_rot)) [0, 0, 0] = Inr [0, 12, 0]"
  by (simp add: demo_rot_def plain_gate_def GetRequiresGradParameters_def)

lemma demo_copy:
  "copy_state demo_policy demo_state [[1, 0, 0]] = (demo_state\<lparr>qs := 1\<rparr>, [[1, 0, 0], [1, 0, 0]])"
  by (simp add: copy_state_def demo_policy_def demo_gk_def demo_rnd_def demo_state_def)

lemma demo_expect: "GetExpectation (hk demo_policy) b () d = 0"
  by (simp add: demo_policy_def demo_hk_def)

lemma demo_matrix: "HamiltonianMatrix (hk demo_policy) () (dim' demo_state) = [0, 0, 0]"
  by (simp add: demo_policy_def demo_hk_def demo_state_def packed_size_def replicate3)

lemma demo_set_items: "SetItems (prm demo_policy) ns ds p = Inr p"
  by (simp add: demo_policy_def demo_prm_def)

lemma demo_rev_loop:
  "reversible_loop demo_policy pr [(''a'', 0), (''b'', Suc 0)] d [demo_rot] ([0, 0, 0], sq, sh, hp)
     = Inr ([0, - 12, 0], hp)"
  by (simp add: demo_rot_grad demo_rot_diff demo_acc_rev demo_rot_apply)

lemma demo_rev_run:
  "GetExpectationWithReversibleGradOneOne demo_policy () [] [demo_rot] [[]] [] [''a''] [''b'']
     (demo_state, [[1, 0, 0]]) = Inr ([0, - 12, 0], [[1, 0, 0], [1, 0, 0], [0, 0, 0]])"
  by (simp add: GetExpectationWithReversibleGradOneOne_def Let_def demo_set_items demo_copy
        demo_expect demo_matrix demo_p_map ApplyCircuit_def replicate3 numeral_3_eq_3
        demo_rot_grad demo_rot_diff demo_acc_rev demo_rot_apply)

lemma demo_noise_loop:
  "noise_loop demo_policy demo_state pr [(''a'', 0), (''b'', Suc 0)] [demo_rot] [demo_rot]
     (1, [0, 0, 0], demo_state\<lparr>qs := 1\<rparr>, sh, [[1, 0, 0], [1, 0, 0], [0, 0, 0]])
     = Inr ([0, 12, 0], [[1, 0, 0], [1, 0, 0], [0, 0, 0]])"
  by (simp add: Let_def demo_rot_grad demo_rot_diff demo_acc_noise demo_rot_apply member_CopyQS_def)
     (simp add: demo_state_def CopyQS_demo)

lemma demo_noise_run:
  "GetExpectationWithNoiseGradOneOne demo_policy () [demo_rot] [demo_rot]
     \<lparr>data = [], no_grad_parameters = [], const_value = 0\<rparr> [(''a'', 0), (''b'', 1)]
     (demo_state, [[1, 0, 0]]) = Inr ([0, 12, 0], [[1, 0, 0], [1, 0, 0], [0, 0, 0]])"
  by (simp add: GetExpectationWithNoiseGradOneOne_def Let_def demo_copy demo_expect demo_matrix
        ApplyCircuit_def demo_rot_not_measure demo_rot_apply replicate3 numeral_3_eq_3
        member_CopyQS_def demo_rot_grad demo_rot_diff demo_acc_noise)
     (simp add: demo_state_def CopyQS_demo)


lemma demo_rot_coeff: "map_of (data (params demo_rot)) ''a'' = Some 3"
  by (simp add: demo_rot_def plain_gate_def)

theorem gradient_sign_by_mode_witness:
  "GetExpectationWithReversibleGradOneOne demo_policy () [] [demo_rot] [[]] [] [''a''] [''b'']
     (demo_state, [[1, 0, 0]]) = Inr ([0, - 12, 0], [[1, 0, 0], [1, 0, 0], [0, 0, 0]])
   \<and> (\<exists>pr sq sh hp. [0, - 12, 0 :: complex] ! 1 =
          reversible_gradient (build_p_map [''a''] [''b''])
            (reversible_readouts demo_policy pr (dim' demo_state) [demo_rot] (sq, sh, hp)) 1)
   \<and> reversible_gradient [(''a'', 0), (''b'', 1)] [(demo_rot, Complex 2 7)] 1
        = of_real (2 * Re (Complex 2 7) * - 3)
   \<and> GetExpectationWithNoiseGradOneOne demo_policy () [demo_rot] [demo_rot]
       \<lparr>data = [], no_grad_parameters = [], const_value = 0\<rparr> [(''a'', 0), (''b'', 1)]
       (demo_state, [[1, 0, 0]]) = Inr ([0, 12, 0], [[1, 0, 0], [1, 0, 0], [0, 0, 0]])
   \<and> (\<exists>sq sh hp. [0, 12, 0 :: complex] ! 1 =
          noise_gradient [(''a'', 0), (''b'', 1)]
            (noise_readouts demo_policy demo_state \<lparr>data = [], no_grad_parameters = [], const_value = 0\<rparr>
               [demo_rot] [demo_rot] (of_nat (length [demo_rot]), sq, sh, hp)) 1)
   \<and> noise_gradient [(''a'', 0), (''b'', 1)] [(demo_rot, Complex 2 7)] 1
        = of_real (2 * Re (Complex 2 7) * 3)"
proof -
  note t1 = gradient_sign_by_mode[where pol = demo_policy and ham = "()" and circ = "[]"
      and herm_circ = "[demo_rot]" and enc_data = "[[]]" and ans_data = "[]" and enc_name = "[''a'']"
      and ans_name = "[''b'']" and this = demo_state and h = "[[1, 0, 0]]"]
  note t2 = gradient_sign_by_mode[where pol = demo_policy and ham = "()" and circ = "[demo_rot]"
      and herm_circ = "[demo_rot]" and this = demo_state and h = "[[1, 0, 0]]"
      and pr' = "\<lparr>data = [], no_grad_parameters = [], const_value = 0\<rparr>"
      and p_map = "[(''a'', 0), (''b'', 1)]"]
  have one: "1 \<le> (1::nat) \<and> (1::nat) < length [0, - 12, 0 :: complex]"
    and one': "1 \<le> (1::nat) \<and> (1::nat) < length [0, 12, 0 :: complex]" by simp_all
  from t1[THEN conjunct1, rule_format, OF demo_rev_run] obtain pr sq hp where
    "\<forall>j. 1 \<le> j \<and> j < length [0, - 12, 0 :: complex] \<longrightarrow>
       [0, - 12, 0 :: complex] ! j =
         reversible_gradient (build_p_map [''a''] [''b''])
           (reversible_readouts demo_policy pr (dim' demo_state) [demo_rot]
              (sq, adopt_state demo_policy (length hp) (n_qubits demo_state) (seed demo_state),
               hp @ [HamiltonianMatrix (hk demo_policy) () (dim' demo_state)])) j"
    by blast
  with one have "[0, - 12, 0 :: complex] ! 1 =
         reversible_gradient (build_p_map [''a''] [''b''])
           (reversible_readouts demo_policy pr (dim' demo_state) [demo_rot]
              (sq, adopt_state demo_policy (length hp) (n_qubits demo_state) (seed demo_state),
               hp @ [HamiltonianMatrix (hk demo_policy) () (dim' demo_state)])) 1"
    by blast
  then have r: "\<exists>pr sq sh hp. [0, - 12, 0 :: complex] ! 1 =
          reversible_gradient (build_p_map [''a''] [''b''])
            (reversible_readouts demo_policy pr (dim' demo_state) [demo_rot] (sq, sh, hp)) 1"
    by blast
  from t2[THEN conjunct2, rule_format, OF demo_noise_run] obtain sq' hp' where
    "\<forall>j. 1 \<le> j \<and> j < length [0, 12, 0 :: complex] \<longrightarrow>
       [0, 12, 0 :: complex] ! j =
         noise_gradient [(''a'', 0), (''b'', 1)]
           (noise_readouts demo_policy demo_state \<lparr>data = [], no_grad_parameters = [], const_value = 0\<rparr>
              [demo_rot] [demo_rot]
              (of_nat (length [demo_rot]), sq',
               adopt_state demo_policy (length hp') (n_qubits demo_state) (seed demo_state),
               member_CopyQS sq' (qs demo_state) hp' @ [HamiltonianMatrix (hk demo_policy) () (dim' demo_state)])) j"
    by blast
  with one' have "[0, 12, 0 :: complex] ! 1 =
         noise_gradient [(''a'', 0), (''b'', 1)]
           (noise_readouts demo_policy demo_state \<lparr>data = [], no_grad_parameters = [], const_value = 0\<rparr>
              [demo_rot] [demo_rot]
              (of_nat (length [demo_rot]), sq',
               adopt_state demo_policy (length hp') (n_qubits demo_state) (seed demo_state),
               member_CopyQS sq' (qs demo_state) hp' @ [HamiltonianMatrix (hk demo_policy) () (dim' demo_state)])) 1"
    by blast
  then have n: "\<exists>sq sh hp. [0, 12, 0 :: complex] ! 1 =
          noise_gradient [(''a'', 0), (''b'', 1)]
            (noise_readouts demo_policy demo_state \<lparr>data = [], no_grad_parameters = [], const_value = 0\<rparr>
               [demo_rot] [demo_rot] (of_nat (length [demo_rot]), sq, sh, hp)) 1"
    by blast
  have rv: "reversible_gradient [(''a'', 0), (''b'', 1)] [(demo_rot, Complex 2 7)] 1
        = of_real (2 * Re (Complex 2 7) * - 3)"
    by (simp add: reversible_gradient_def demo_rot_its demo_rot_coeff)
  have nv: "noise_gradient [(''a'', 0), (''b'', 1)] [(demo_rot, Complex 2 7)] 1
        = of_real (2 * Re (Complex 2 7) * 3)"
    by (simp add: noise_gradient_def demo_rot_its demo_rot_coeff)
  from demo_rev_run r rv demo_noise_run n nv show ?thesis
    by (intro conjI)
qed

subsection \<open>The clamp of the number of threads\<close>








subsection \<open>The check of the circuit lengths\<close>

lemma demo_X_any: "ApplyGate demo_policy (plain_gate ''X'' [0] False) pr diff (st, h)
   = Inr (2, st, h[qs st := h ! qs st])"
  by (simp add: ApplyGate_def plain_gate_def gI_def gX_def demo_policy_def demo_gk_def)

text \<open>
  C2. The noise-mode gradient is claimed to fail when \<open>circ\<close> and \<open>herm_circ\<close> differ in
  length. With \<open>circ\<close> of one gate and an empty \<open>herm_circ\<close> the check constructs its error
  (\<open>size_check\<close> is not empty), nothing is thrown, the loop over \<open>herm_circ\<close> runs zero
  times, and both functions return a result: the expectation value and a zero gradient.
\<close>

theorem noise_grad_length_mismatch_dropped:
  "size_check [plain_gate ''X'' [0] False] [] \<noteq> []
   \<and> GetExpectationWithNoiseGradOneOne demo_policy () [plain_gate ''X'' [0] False] []
        \<lparr>data = [], no_grad_parameters = [], const_value = 0\<rparr> [] (demo_state, [[1, 0, 0]])
      = Inr ([0], [[1, 0, 0], [1, 0, 0], [0, 0, 0]])
   \<and> GetExpectationWithNoiseGradOneMulti demo_policy [()] [plain_gate ''X'' [0] False] []
        \<lparr>data = [], no_grad_parameters = [], const_value = 0\<rparr> [] 1 (demo_state, [[1, 0, 0]])
      = Inr ([[0]], [[1, 0, 0], [1, 0, 0], [0, 0, 0]])"
proof -
  have chk: "size_check [plain_gate ''X'' [0] False] [] \<noteq> []"
    by (simp add: size_check_def)
  have circ: "ApplyCircuit demo_policy [plain_gate ''X'' [0] False] pr (copy_state demo_policy demo_state [[1, 0, 0]])
      = Inr (Map.empty, demo_state\<lparr>qs := 1\<rparr>, [[1, 0, 0], [1, 0, 0]])" for pr
    by (simp add: ApplyCircuit_def demo_X_any copy_state_def)
       (simp add: plain_gate_def demo_policy_def demo_gk_def demo_rnd_def demo_state_def)
  have one: "GetExpectationWithNoiseGradOneOne demo_policy () [plain_gate ''X'' [0] False] []
        \<lparr>data = [], no_grad_parameters = [], const_value = 0\<rparr> [] (demo_state, [[1, 0, 0]])
      = Inr ([0], [[1, 0, 0], [1, 0, 0], [0, 0, 0]])"
    by (simp add: GetExpectationWithNoiseGradOneOne_def circ Let_def member_CopyQS_def)
       (simp add: demo_state_def demo_policy_def demo_hk_def CopyQS_demo packed_size_def replicate3)
  have multi: "GetExpectationWithNoiseGradOneMulti demo_policy [()] [plain_gate ''X'' [0] False] []
        \<lparr>data = [], no_grad_parameters = [], const_value = 0\<rparr> [] 1 (demo_state, [[1, 0, 0]])
      = Inr ([[0]], [[1, 0, 0], [1, 0, 0], [0, 0, 0]])"
    by (simp add: GetExpectationWithNoiseGradOneMulti_def circ Let_def clamp_n_thread_def to_int_def
          group_count_def to_size_t_def group_bounds_def member_CopyQS_def)
       (simp add: demo_state_def demo_policy_def demo_hk_def adopt_state_def CopyQS_demo packed_size_def replicate3)
  from chk one multi show ?thesis by blast
qed

section \<open>Properties of the measurement\<close>

lemma tri_Suc: "tri r r + 1 = tri (Suc r) 0"
proof -
  have "Suc r * (Suc r + 1) = r * (r + 1) + 2 * (r + 1)" by simp
  moreover have "(a + 2 * b) div 2 = a div 2 + b" for a b :: nat
    by simp
  ultimately have "Suc r * (Suc r + 1) div 2 = r * (r + 1) div 2 + (r + 1)"
    by (simp only:)
  then show ?thesis by (simp add: tri_def)
qed

lemma tri_0_mono:
  assumes "r \<le> r'"
  shows "tri r 0 \<le> tri r' 0"
proof -
  have "r * (r + 1) \<le> r' * (r' + 1)"
    using assms by (intro mult_le_mono) simp_all
  then have "r * (r + 1) div 2 \<le> r' * (r' + 1) div 2"
    by (rule div_le_mono)
  then show ?thesis by (simp add: tri_def)
qed

lemma tri_less_next_row:
  assumes "c \<le> r" and "r < r'"
  shows "tri r c < tri r' 0"
proof -
  have "tri r c \<le> tri r r" using assms(1) by (simp add: tri_def)
  also have "\<dots> < tri (Suc r) 0" using tri_Suc[of r] by simp
  also have "\<dots> \<le> tri r' 0" using assms(2) by (intro tri_0_mono) simp
  finally show ?thesis .
qed

lemma tri_inj:
  assumes "c \<le> r" and "c' \<le> r'" and "tri r c = tri r' c'"
  shows "r = r' \<and> c = c'"
proof -
  have "\<not> r < r'"
  proof
    assume "r < r'"
    from tri_less_next_row[OF assms(1) this] have "tri r c < tri r' c'" by (simp add: tri_def)
    with assms(3) show False by simp
  qed
  moreover have "\<not> r' < r"
  proof
    assume "r' < r"
    from tri_less_next_row[OF assms(2) this] have "tri r' c' < tri r c" by (simp add: tri_def)
    with assms(3) show False by simp
  qed
  ultimately have "r = r'" by simp
  with assms(3) show ?thesis by (simp add: tri_def)
qed

lemma tri_less_packed:
  assumes "c \<le> r" and "r < n"
  shows "tri r c < n * (n + 1) div 2"
  using tri_less_next_row[OF assms] by (simp add: tri_def)

lemma IdxMap_tri:
  fixes r c :: index_t
  assumes "unat r < 2 ^ 32" and "c \<le> r"
  shows "IdxMap r c = tri (unat r) (unat c)"
proof -
  have r1: "unat (r + 1) = unat r + 1"
    using assms(1) by (simp add: unat_add_lem[THEN iffD1])
  have "unat r * (unat r + 1) \<le> (2 ^ 32 - 1) * 2 ^ 32"
    using assms(1) by (intro mult_mono) simp_all
  then have lt: "unat r * (unat r + 1) < 2 ^ 64" by simp
  then have m: "unat (r * (r + 1)) = unat r * (unat r + 1)"
    using r1 by (simp add: unat_mult_lem[THEN iffD1])
  have d: "unat (r * (r + 1) div 2) = unat r * (unat r + 1) div 2"
    by (simp add: unat_div m)
  have "unat c \<le> unat r" using assms(2) by (simp add: word_le_nat_alt)
  with assms(1) lt have "unat r * (unat r + 1) div 2 + unat c < 2 ^ 64" by simp
  then have "unat (r * (r + 1) div 2 + c) = unat r * (unat r + 1) div 2 + unat c"
    using d by (simp add: unat_add_lem[THEN iffD1])
  then show ?thesis by (simp add: IdxMap_def tri_def)
qed

lemma index_range_Suc: "index_range (Suc n) = index_range n @ [of_nat n]"
  by (simp add: index_range_def)

lemma unat_of_nat_index: "n < 2 ^ 64 \<Longrightarrow> unat (of_nat n :: index_t) = n"
  by (simp add: unat_of_nat)

lemma set_at_length: "length (set_at i c xs) = length xs"
  by (simp add: set_at_def)

lemma set_at_nth: "j < length xs \<Longrightarrow> set_at i c xs ! j = (if j = i then c else xs ! j)"
  by (simp add: set_at_def)

lemma row_fold:
  fixes R :: index_t
  assumes "unat R < 2 ^ 32" and "m \<le> Suc (unat R)"
  shows "length (fold (\<lambda>c. set_at (IdxMap R c) (v c)) (index_range m) xs) = length xs
       \<and> (\<forall>i<length xs. fold (\<lambda>c. set_at (IdxMap R c) (v c)) (index_range m) xs ! i =
            (if tri (unat R) 0 \<le> i \<and> i < tri (unat R) m then v (of_nat (i - tri (unat R) 0)) else xs ! i))"
  using assms(2)
proof (induction m)
  case 0
  then show ?case by (auto simp: index_range_def)
next
  case (Suc m)
  then have IH: "length (fold (\<lambda>c. set_at (IdxMap R c) (v c)) (index_range m) xs) = length xs"
    "\<And>i. i < length xs \<Longrightarrow> fold (\<lambda>c. set_at (IdxMap R c) (v c)) (index_range m) xs ! i =
            (if tri (unat R) 0 \<le> i \<and> i < tri (unat R) m then v (of_nat (i - tri (unat R) 0)) else xs ! i)"
    by simp_all
  from Suc.prems assms(1) have m: "m \<le> unat R" "m < 2 ^ 64" by simp_all
  then have um: "unat (of_nat m :: index_t) = m" by (simp add: unat_of_nat_index)
  with m have le: "(of_nat m :: index_t) \<le> R" by (simp add: word_le_nat_alt)
  have idx: "IdxMap R (of_nat m) = tri (unat R) m"
    using IdxMap_tri[OF assms(1) le] by (simp add: um)
  show ?case
    by (auto simp: index_range_Suc set_at_length set_at_nth IH idx tri_def)
qed


lemma triangle_fold:
  assumes "n \<le> 2 ^ 32"
  shows "length (fold (\<lambda>R. fold (\<lambda>c. set_at (IdxMap R c) (v R c)) (index_range (Suc (unat R))))
                  (index_range n) xs) = length xs
       \<and> (\<forall>r<n. \<forall>c\<le>r. tri r c < length xs \<longrightarrow>
             fold (\<lambda>R. fold (\<lambda>c. set_at (IdxMap R c) (v R c)) (index_range (Suc (unat R))))
               (index_range n) xs ! tri r c = v (of_nat r) (of_nat c))
       \<and> (\<forall>i<length xs. tri n 0 \<le> i \<longrightarrow>
             fold (\<lambda>R. fold (\<lambda>c. set_at (IdxMap R c) (v R c)) (index_range (Suc (unat R))))
               (index_range n) xs ! i = xs ! i)"
  using assms
proof (induction n)
  case 0
  then show ?case by (simp add: index_range_def)
next
  case (Suc n)
  let ?outer = "\<lambda>k. fold (\<lambda>R. fold (\<lambda>c. set_at (IdxMap R c) (v R c)) (index_range (Suc (unat R))))
                  (index_range k) xs"
  let ?R = "of_nat n :: index_t"
  from Suc.prems have n: "n < 2 ^ 32" by simp
  then have uR: "unat ?R = n" by (simp add: unat_of_nat_index)
  from Suc have IH:
    "length (?outer n) = length xs"
    "\<And>r c. r < n \<Longrightarrow> c \<le> r \<Longrightarrow> tri r c < length xs \<Longrightarrow> ?outer n ! tri r c = v (of_nat r) (of_nat c)"
    "\<And>i. i < length xs \<Longrightarrow> tri n 0 \<le> i \<Longrightarrow> ?outer n ! i = xs ! i"
    by simp_all
  have step: "?outer (Suc n) = fold (\<lambda>c. set_at (IdxMap ?R c) (v ?R c)) (index_range (Suc n)) (?outer n)"
    by (simp add: index_range_Suc[of n] uR)
  have "unat ?R < 2 ^ 32" using n uR by simp
  from row_fold[OF this, of "Suc n" "v ?R" "?outer n"]
  have row: "length (?outer (Suc n)) = length xs"
    "\<And>i. i < length xs \<Longrightarrow> ?outer (Suc n) ! i =
        (if tri n 0 \<le> i \<and> i < tri n (Suc n) then v ?R (of_nat (i - tri n 0)) else ?outer n ! i)"
    by (simp_all add: step uR IH(1))
  have nxt: "tri n (Suc n) = tri (Suc n) 0"
    using tri_Suc[of n] by (simp add: tri_def)
  show ?case
  proof (intro conjI allI impI)
    show "length (?outer (Suc n)) = length xs" by (rule row(1))
  next
    fix r c
    assume r: "r < Suc n" and c: "c \<le> r" and len: "tri r c < length xs"
    show "?outer (Suc n) ! tri r c = v (of_nat r) (of_nat c)"
    proof (cases "r = n")
      case True
      then have "tri n 0 \<le> tri r c \<and> tri r c < tri n (Suc n)"
        using c by (simp add: tri_def)
      moreover have "tri r c - tri n 0 = c" using True by (simp add: tri_def)
      ultimately show ?thesis using row(2)[OF len] True by simp
    next
      case False
      with r have rn: "r < n" by simp
      from tri_less_next_row[OF c rn] have "\<not> tri n 0 \<le> tri r c" by simp
      then show ?thesis using row(2)[OF len] IH(2)[OF rn c len] by simp
    qed
  next
    fix i
    assume i: "i < length xs" and ge: "tri (Suc n) 0 \<le> i"
    then have "\<not> i < tri n (Suc n)" by (simp add: nxt)
    moreover have "tri n 0 \<le> i"
      using ge tri_0_mono[of n "Suc n"] by simp
    ultimately show "?outer (Suc n) ! i = xs ! i"
      using row(2)[OF i] IH(3)[OF i] by simp
  qed
qed

lemma ConditionalMul_length:
  assumes "unat d \<le> 2 ^ 32"
  shows "length (ConditionalMul src des msk condi s f d) = length des"
  unfolding ConditionalMul_def by (rule triangle_fold[OF assms, THEN conjunct1])

lemma ConditionalMul_entry:
  fixes r c d :: index_t
  assumes "unat d \<le> 2 ^ 32" and "length des = packed_size d" and "r < d" and "c \<le> r"
  shows "ConditionalMul src des msk condi s f d ! IdxMap r c =
           src ! IdxMap r c * (if r AND msk = condi \<and> c AND msk = condi then s else f)"
proof -
  let ?v = "\<lambda>R C. src ! IdxMap R C * (if R AND msk = condi \<and> C AND msk = condi then s else f)"
  note t = triangle_fold[OF assms(1), of ?v des]
  have r: "unat r < unat d" using assms(3) by (simp add: word_less_nat_alt)
  have c: "unat c \<le> unat r" using assms(4) by (simp add: word_le_nat_alt)
  have "tri (unat r) (unat c) < length des"
    using tri_less_packed[OF c r] by (simp add: assms(2) packed_size_def)
  with t r c have "ConditionalMul src des msk condi s f d ! tri (unat r) (unat c) = ?v (of_nat (unat r)) (of_nat (unat c))"
    by (simp add: ConditionalMul_def)
  moreover have "unat r < 2 ^ 32" using r assms(1) by simp
  ultimately show ?thesis
    using IdxMap_tri[OF _ assms(4)] by simp
qed

lemma and_push_bit_1_iff:
  fixes i :: index_t
  assumes "q < 64"
  shows "(i AND push_bit q 1 = push_bit q 1) \<longleftrightarrow> bit i q"
    and "(i AND push_bit q 1 = 0) \<longleftrightarrow> \<not> bit i q"
proof -
  show z: "(i AND push_bit q 1 = 0) \<longleftrightarrow> \<not> bit i q"
    by (simp add: bit_iff_and_push_bit_not_eq_0)
  have nz: "(push_bit q 1 :: index_t) \<noteq> 0"
    using assms by (simp add: push_bit_eq_mult)
  show "(i AND push_bit q 1 = push_bit q 1) \<longleftrightarrow> bit i q"
  proof
    assume "i AND push_bit q 1 = push_bit q 1"
    with nz z show "bit i q" by auto
  next
    assume b: "bit i q"
    show "i AND push_bit q 1 = push_bit q 1"
      by (rule bit_eqI) (use b in \<open>auto simp: bit_and_iff bit_push_bit_iff bit_1_iff bit_exp_iff\<close>)
  qed
qed


lemma and_exp_iff:
  fixes i :: index_t
  assumes "q < 64"
  shows "(i AND 2 ^ q = 2 ^ q) \<longleftrightarrow> bit i q"
    and "(i AND 2 ^ q = 0) \<longleftrightarrow> \<not> bit i q"
  using and_push_bit_1_iff[OF assms, of i] by (simp_all add: push_bit_eq_mult)

lemma exp_index_nonzero: "q < 64 \<Longrightarrow> (2 ^ q :: index_t) \<noteq> 0"
  by simp

lemma DiagonalConditionalCollect_p1:
  assumes "q < 64"
  shows "DiagonalConditionalCollect rho (push_bit q 1) (push_bit q 1) a d = measure_p1 rho q d"
  by (simp add: DiagonalConditionalCollect_def measure_p1_def and_exp_iff(1)[OF assms])

text \<open>
  C3. For a measurement gate on qubit \<open>q\<close> (below 64), a draw \<open>u\<close> in \<open>[0, 1)\<close> and a state
  whose buffer holds the packed matrix of a dimension up to \<open>2\<^sup>3\<^sup>2\<close>: \<open>ApplyMeasure\<close> returns
  an outcome \<open>b\<close> that is 1 exactly when \<open>u < p\<^sub>1\<close> and 0 otherwise, where \<open>p\<^sub>1\<close> is the sum of
  the diagonal entries whose index has bit \<open>q\<close> set; the engine of the state has advanced
  by the draw; with \<open>p\<^sub>b\<close> the probability of the outcome (\<open>p\<^sub>1\<close> or \<open>1 - p\<^sub>1\<close>), which is
  positive, every stored entry \<open>(r, c)\<close> whose row and column index both have bit \<open>q\<close> equal
  to \<open>b\<close> is multiplied by \<open>1 / p\<^sub>b\<close>, and every other stored entry is zero.
\<close>

theorem ApplyMeasure_projects:
  fixes u :: real
  assumes "is_measure g" and "obj_qubits g = q # rest" and "q < 64"
    and "uniform_real (rnd pol) 0 1 (rnd_eng st) = (u, eng)" and "0 \<le> u" and "u < 1"
    and "unat (dim' st) \<le> 2 ^ 32" and "qs st < length h"
    and "length (h ! qs st) = packed_size (dim' st)"
  shows "\<exists>b pb h'. ApplyMeasure pol g (st, h) = Inr (b, st\<lparr>rnd_eng := eng\<rparr>, h')
          \<and> (b = 1 \<longleftrightarrow> u < measure_p1 (h ! qs st) q (dim' st))
          \<and> (b = 0 \<longleftrightarrow> \<not> u < measure_p1 (h ! qs st) q (dim' st))
          \<and> pb = (if b = 1 then measure_p1 (h ! qs st) q (dim' st)
                   else 1 - measure_p1 (h ! qs st) q (dim' st))
          \<and> 0 < pb
          \<and> length (h' ! qs st) = length (h ! qs st)
          \<and> (\<forall>r c. r < dim' st \<longrightarrow> c \<le> r \<longrightarrow>
                h' ! qs st ! IdxMap r c =
                  (if (bit r q \<longleftrightarrow> b = 1) \<and> (bit c q \<longleftrightarrow> b = 1)
                   then h ! qs st ! IdxMap r c * of_real (1 / pb) else 0))"
proof -
  let ?rho = "h ! qs st"
  let ?p1 = "measure_p1 ?rho q (dim' st)"
  let ?one = "push_bit q 1 :: index_t"
  have nz: "?one \<noteq> 0" using assms(3) by (simp add: push_bit_eq_mult)
  note cm = ConditionalMul_entry[OF assms(7) assms(9)]
  note cl = ConditionalMul_length[OF assms(7)]
  show ?thesis
  proof (cases "u < ?p1")
    case True
    let ?h' = "h[qs st := ConditionalMul ?rho ?rho ?one ?one (of_real (1 / ?p1)) 0 (dim' st)]"
    have run: "ApplyMeasure pol g (st, h) = Inr (1, st\<lparr>rnd_eng := eng\<rparr>, ?h')"
      using True nz DiagonalConditionalCollect_p1[OF assms(3), of ?rho True "dim' st"]
      by (simp add: ApplyMeasure_def assms(1,2,4) Let_def)
    have pos: "0 < ?p1" using True assms(5) by simp
    have buf: "?h' ! qs st = ConditionalMul ?rho ?rho ?one ?one (of_real (1 / ?p1)) 0 (dim' st)"
      using assms(8) by simp
    have ent: "?h' ! qs st ! IdxMap r c =
        (if (bit r q \<longleftrightarrow> (1::nat) = 1) \<and> (bit c q \<longleftrightarrow> (1::nat) = 1)
         then ?rho ! IdxMap r c * of_real (1 / ?p1) else 0)"
      if "r < dim' st" "c \<le> r" for r c
      unfolding buf cm[OF that] by (simp add: and_exp_iff(1)[OF assms(3)])
    have len: "length (?h' ! qs st) = length ?rho"
      unfolding buf by (rule cl)
    show ?thesis
      by (rule exI[of _ 1], rule exI[of _ ?p1], rule exI[of _ ?h'])
         (use run True pos len ent in simp)
  next
    case False
    let ?h' = "h[qs st := ConditionalMul ?rho ?rho ?one 0 (of_real (1 / (1 - ?p1))) 0 (dim' st)]"
    have run: "ApplyMeasure pol g (st, h) = Inr (0, st\<lparr>rnd_eng := eng\<rparr>, ?h')"
      using False DiagonalConditionalCollect_p1[OF assms(3), of ?rho True "dim' st"]
      by (simp add: ApplyMeasure_def assms(1,2,4) Let_def)
    have pos: "0 < 1 - ?p1" using False assms(6) by simp
    have buf: "?h' ! qs st = ConditionalMul ?rho ?rho ?one 0 (of_real (1 / (1 - ?p1))) 0 (dim' st)"
      using assms(8) by simp
    have ent: "?h' ! qs st ! IdxMap r c =
        (if (bit r q \<longleftrightarrow> (0::nat) = 1) \<and> (bit c q \<longleftrightarrow> (0::nat) = 1)
         then ?rho ! IdxMap r c * of_real (1 / (1 - ?p1)) else 0)"
      if "r < dim' st" "c \<le> r" for r c
      unfolding buf cm[OF that] by (simp add: and_exp_iff(2)[OF assms(3)])
    have len: "length (?h' ! qs st) = length ?rho"
      unfolding buf by (rule cl)
    show ?thesis
      by (rule exI[of _ 0], rule exI[of _ "1 - ?p1"], rule exI[of _ ?h'])
         (use run False pos len ent in simp)
  qed
qed



theorem ApplyMeasure_projects_witness:
  "is_measure (plain_gate ''m'' [0] True)
   \<and> obj_qubits (plain_gate ''m'' [0] True) = [0]
   \<and> (0::nat) < 64
   \<and> uniform_real (rnd demo_policy) 0 1 (rnd_eng demo_state) = (0, 1)
   \<and> unat (dim' demo_state) \<le> 2 ^ 32
   \<and> qs demo_state < length [[1/2, 1/2, 1/2 :: complex]]
   \<and> length ([[1/2, 1/2, 1/2 :: complex]] ! qs demo_state) = packed_size (dim' demo_state)
   \<and> measure_p1 [1/2, 1/2, 1/2] 0 2 = 1/2
   \<and> (\<exists>b pb h'. ApplyMeasure demo_policy (plain_gate ''m'' [0] True) (demo_state, [[1/2, 1/2, 1/2]])
                    = Inr (b, demo_state\<lparr>rnd_eng := 1\<rparr>, h')
          \<and> b = 1 \<and> pb = 1/2
          \<and> h' ! 0 ! IdxMap 1 1 = 1/2 * of_real (1 / pb)
          \<and> h' ! 0 ! IdxMap 1 0 = 0
          \<and> h' ! 0 ! IdxMap 0 0 = 0)"
proof -
  let ?g = "plain_gate ''m'' [0] True"
  let ?h = "[[1/2, 1/2, 1/2 :: complex]]"
  have a1: "is_measure ?g" by (simp add: plain_gate_def)
  have a2: "obj_qubits ?g = 0 # []" by (simp add: plain_gate_def)
  have a3: "(0::nat) < 64" by simp
  have a4: "uniform_real (rnd demo_policy) 0 1 (rnd_eng demo_state) = (0, 1)"
    by (simp add: demo_policy_def demo_rnd_def demo_state_def)
  have a5: "(0::real) \<le> 0" and a6: "(0::real) < 1" by simp_all
  have a7: "unat (dim' demo_state) \<le> 2 ^ 32" by (simp add: demo_state_def)
  have a8: "qs demo_state < length ?h" by (simp add: demo_state_def)
  have a9: "length (?h ! qs demo_state) = packed_size (dim' demo_state)"
    by (simp add: demo_state_def packed_size_def)
  have p1: "measure_p1 [1/2, 1/2, 1/2] 0 2 = 1/2"
    by (simp add: measure_p1_def index_range_def upt_rec IdxMap_def)
  have q: "qs demo_state = 0" "dim' demo_state = 2" by (simp_all add: demo_state_def)
  from ApplyMeasure_projects[OF a1 a2 a3 a4 a5 a6 a7 a8 a9]
  obtain b pb h' where
    run: "ApplyMeasure demo_policy ?g (demo_state, ?h) = Inr (b, demo_state\<lparr>rnd_eng := 1\<rparr>, h')"
    and b: "b = 1 \<longleftrightarrow> 0 < measure_p1 (?h ! qs demo_state) 0 (dim' demo_state)"
    and pb: "pb = (if b = 1 then measure_p1 (?h ! qs demo_state) 0 (dim' demo_state)
                   else 1 - measure_p1 (?h ! qs demo_state) 0 (dim' demo_state))"
    and ent: "\<And>r c. r < dim' demo_state \<Longrightarrow> c \<le> r \<Longrightarrow>
                h' ! qs demo_state ! IdxMap r c =
                  (if (bit r 0 \<longleftrightarrow> b = 1) \<and> (bit c 0 \<longleftrightarrow> b = 1)
                   then ?h ! qs demo_state ! IdxMap r c * of_real (1 / pb) else 0)"
    by blast
  have b1: "b = 1" using b by (simp add: q p1)
  have pb1: "pb = 1/2" using pb b1 by (simp add: q p1)
  have e11: "h' ! 0 ! IdxMap 1 1 = 1/2 * of_real (1 / pb)"
    using ent[of 1 1] by (simp add: q b1 IdxMap_def)
  have e10: "h' ! 0 ! IdxMap 1 0 = 0"
    using ent[of 1 0] by (simp add: q b1)
  have e00: "h' ! 0 ! IdxMap 0 0 = 0"
    using ent[of 0 0] by (simp add: q b1)
  from run b1 pb1 e11 e10 e00 have
    "\<exists>b pb h'. ApplyMeasure demo_policy ?g (demo_state, ?h) = Inr (b, demo_state\<lparr>rnd_eng := 1\<rparr>, h')
          \<and> b = 1 \<and> pb = 1/2
          \<and> h' ! 0 ! IdxMap 1 1 = 1/2 * of_real (1 / pb)
          \<and> h' ! 0 ! IdxMap 1 0 = 0
          \<and> h' ! 0 ! IdxMap 0 0 = 0"
    by blast
  with a1 a2 a3 a4 a7 a8 a9 p1 show ?thesis by simp
qed


section \<open>Properties of the sampling\<close>

subsection \<open>What a gate leaves alone\<close>







subsection \<open>Columns and rows\<close>

lemma fill_res1_length: "fill_res1 km res0 r = Inr r' \<Longrightarrow> length r' = length r"
  by (induction km arbitrary: r) (auto split: if_splits)








subsection \<open>The loop over the shots\<close>













subsection \<open>A run of two shots\<close>











section \<open>Properties of the gate builder\<close>

lemma AddObj_duplicate: "obj \<in> set (objs g) \<Longrightarrow> AddObj obj g = Inl (ObjAlreadyAdded obj)"
  by (simp add: AddObj_def)

lemma AddCtrl_duplicate:
  "ctrl \<notin> set (objs g) \<Longrightarrow> ctrl \<in> set (ctrls g) \<Longrightarrow> AddCtrl ctrl g = Inl (CtrlAlreadyAdded ctrl)"
  by (simp add: AddCtrl_def)

lemma AddCtrl_overlap: "ctrl \<in> set (objs g) \<Longrightarrow> AddCtrl ctrl g = Inl (CtrlInObjQubits ctrl)"
  by (simp add: AddCtrl_def)

lemma AddObj_success_iff: "(\<exists>g'. AddObj obj g = Inr g') \<longleftrightarrow> obj \<notin> set (objs g)"
  by (simp add: AddObj_def)

text \<open>
  C8. \<open>AddObj\<close> and \<open>AddCtrl\<close> are claimed to fail whenever a control qubit overlaps an
  object qubit, in either order of addition. \<open>AddCtrl\<close> searches \<open>objs\<close> and \<open>ctrls\<close>, but
  \<open>AddObj\<close> searches \<open>objs\<close> only: adding qubit 0 as an object to a builder that already holds
  qubit 0 as a control succeeds, and leaves qubit 0 in both lists.
\<close>

theorem AddObj_accepts_existing_ctrl:
  "AddObj 0 \<lparr>gate = GX, objs = [], ctrls = [0], ang = 0\<rparr>
     = Inr \<lparr>gate = GX, objs = [0], ctrls = [0], ang = 0\<rparr>"
  by (simp add: AddObj_def)

end
